theory Spec2Isabelle
  imports Complex_Main
begin

section \<open>Python values used by the sources\<close>

text \<open>
  Exceptions are values.  \<open>ValueError\<close> and \<open>KeyError\<close> carry the message or key the
  source gives them; \<open>TypeError\<close> is what Python raises when \<open>None\<close> is called, and
  \<open>IndexError\<close> what an out-of-range row index raises.
\<close>

datatype error = ValueError string | TypeError | KeyError string | IndexError

text \<open>\<open>str(n)\<close> for a Python int, as the f-strings of the error messages format it.\<close>

definition digit_char :: "nat \<Rightarrow> char" where
  "digit_char d = char_of (48 + d)"

fun str_nat :: "nat \<Rightarrow> string" where
  "str_nat n = (if n < 10 then [digit_char n] else str_nat (n div 10) @ [digit_char (n mod 10)])"

declare str_nat.simps [simp del]

definition str_int :: "int \<Rightarrow> string" where
  "str_int i = (if i < 0 then CHR ''-'' # str_nat (nat (- i)) else str_nat (nat i))"

section \<open>The decoder layer (\<open>nn/transformer/decoder_layer.py\<close>)\<close>

subsection \<open>Collaborators\<close>

text \<open>
  \<open>TransformerNormOrder\<close> is imported from \<open>norm_order.py\<close>; the layer uses its three
  members.
\<close>

datatype TransformerNormOrder = POST | PRE | PRE_WITH_NORMFORMER

text \<open>
  A tensor is a value of an arbitrary type \<open>'t\<close>, an incremental state bag of type
  \<open>'b\<close>.  A module is its declared \<open>model_dim\<close> and its \<open>forward\<close>.  The attention
  module is called as \<open>attn(x, keys, values, attn_mask, padding_mask, state_bag)\<close>;
  it may mutate the bag it is handed, so its \<open>forward\<close> returns the bag's contents after
  the call next to the output tensor.  A \<open>LayerNorm\<close> module is its \<open>forward\<close>.
\<close>

record ('t, 'b) MultiheadAttention =
  mha_model_dim :: int
  mha_forward :: "'t \<Rightarrow> 't \<Rightarrow> 't \<Rightarrow> 't option \<Rightarrow> 't option \<Rightarrow> 'b option \<Rightarrow> 't \<times> 'b option"

record 't FeedForwardNetwork =
  ffn_model_dim :: int
  ffn_forward :: "'t \<Rightarrow> 't"

text \<open>
  The functions of \<open>torch\<close> the layer calls.  \<open>LayerNorm model_dim eps device dtype\<close> is
  the module the constructor of that name builds; \<open>add\<close> is \<open>x + residual\<close>; \<open>mul\<close> is
  \<open>torch.mul\<close>; \<open>dropout x p training\<close> is \<open>F.dropout\<close>, which draws from the random
  generator whose state has type \<open>'g\<close>; \<open>empty\<close> is \<open>torch.empty\<close> and \<open>nn_init_ones\<close> is
  \<open>nn.init.ones_\<close>.  Floats are reals: the layer only compares \<open>dropout_p\<close> with
  \<open>0.0\<close> and hands floats on.
\<close>

record ('t, 'g, 'dev, 'dty) torch =
  LayerNorm :: "int \<Rightarrow> real \<Rightarrow> 'dev option \<Rightarrow> 'dty option \<Rightarrow> 't \<Rightarrow> 't"
  add :: "'t \<Rightarrow> 't \<Rightarrow> 't"
  mul :: "'t \<Rightarrow> 't \<Rightarrow> 't"
  dropout :: "'t \<Rightarrow> real \<Rightarrow> bool \<Rightarrow> 'g \<Rightarrow> 't \<times> 'g"
  empty :: "int list \<Rightarrow> 'dev option \<Rightarrow> 'dty option \<Rightarrow> 't"
  nn_init_ones :: "'t \<Rightarrow> 't"

subsection \<open>\<open>StandardTransformerDecoderLayer\<close>\<close>

text \<open>
  The attributes of the layer.  \<open>training\<close> is the flag of \<open>torch.nn.Module\<close> that
  \<open>F.dropout\<close> is given; \<open>Module.__init__\<close> sets it to \<open>True\<close>.
\<close>

record ('t, 'b) StandardTransformerDecoderLayer =
  model_dim :: int
  self_attn :: "('t, 'b) MultiheadAttention"
  self_attn_norm :: "('t \<Rightarrow> 't) option"
  self_attn_layer_norm :: "'t \<Rightarrow> 't"
  enc_dec_attn :: "('t, 'b) MultiheadAttention option"
  enc_dec_attn_layer_norm :: "('t \<Rightarrow> 't) option"
  ffn :: "'t FeedForwardNetwork"
  residual_scale :: "'t option"
  ffn_layer_norm :: "'t \<Rightarrow> 't"
  dropout_p :: real
  norm_order :: TransformerNormOrder
  training :: bool

definition reset_parameters ::
  "('t, 'g, 'dev, 'dty) torch \<Rightarrow> ('t, 'b) StandardTransformerDecoderLayer
     \<Rightarrow> ('t, 'b) StandardTransformerDecoderLayer" where
  "reset_parameters T L =
     (case residual_scale L of
        Some s \<Rightarrow> L\<lparr>residual_scale := Some (nn_init_ones T s)\<rparr>
      | None \<Rightarrow> L)"

definition enc_dec_dim_msg :: "int \<Rightarrow> int \<Rightarrow> string" where
  "enc_dec_dim_msg d m =
     ''`model_dim` of `enc_dec_attn` ('' @ str_int d
       @ '') does not match `model_dim` of `self_attn` ('' @ str_int m @ '').''"

definition ffn_dim_msg :: "int \<Rightarrow> int \<Rightarrow> string" where
  "ffn_dim_msg d m =
     ''`model_dim` of `ffn` ('' @ str_int d
       @ '') does not match `model_dim` of `self_attn` ('' @ str_int m @ '').''"

text \<open>
  \<open>__init__\<close>.  The two dimension checks come in the source's order: the
  encoder-decoder attention first, the feed-forward network second.  Each layer norm is
  assigned once, before or after the module it belongs to, whatever the norm order.
\<close>

definition init ::
  "('t, 'g, 'dev, 'dty) torch \<Rightarrow> ('t, 'b) MultiheadAttention
     \<Rightarrow> ('t, 'b) MultiheadAttention option \<Rightarrow> 't FeedForwardNetwork
     \<Rightarrow> bool \<Rightarrow> real \<Rightarrow> TransformerNormOrder \<Rightarrow> real \<Rightarrow> 'dev option \<Rightarrow> 'dty option
     \<Rightarrow> error + ('t, 'b) StandardTransformerDecoderLayer" where
  "init T self_attn' enc_dec_attn' ffn' scale_residual dropout_p' norm_order' norm_eps device dtype =
     (let model_dim' = mha_model_dim self_attn';
          self_attn_layer_norm' = LayerNorm T model_dim' norm_eps device dtype;
          self_attn_norm' =
            (if norm_order' = PRE_WITH_NORMFORMER
             then Some (LayerNorm T model_dim' norm_eps device dtype) else None)
      in case (case enc_dec_attn' of
                 None \<Rightarrow> Inr (None, None)
               | Some a \<Rightarrow>
                   if mha_model_dim a \<noteq> model_dim'
                   then Inl (ValueError (enc_dec_dim_msg (mha_model_dim a) model_dim'))
                   else Inr (Some a, Some (LayerNorm T model_dim' norm_eps device dtype))) of
           Inl e \<Rightarrow> Inl e
         | Inr (eda, eda_layer_norm) \<Rightarrow>
             if ffn_model_dim ffn' \<noteq> model_dim'
             then Inl (ValueError (ffn_dim_msg (ffn_model_dim ffn') model_dim'))
             else
               Inr (reset_parameters T
                 \<lparr>model_dim = model_dim',
                  self_attn = self_attn',
                  self_attn_norm = self_attn_norm',
                  self_attn_layer_norm = self_attn_layer_norm',
                  enc_dec_attn = eda,
                  enc_dec_attn_layer_norm = eda_layer_norm,
                  ffn = ffn',
                  residual_scale =
                    (if scale_residual then Some (empty T [model_dim'] device dtype) else None),
                  ffn_layer_norm = LayerNorm T model_dim' norm_eps device dtype,
                  dropout_p = dropout_p',
                  norm_order = norm_order',
                  training = True\<rparr>))"

text \<open>
  The three sub-blocks.  Each returns, next to its tensor, what it leaves behind: the
  state bag after the attention call and the state of the random generator after
  dropout.  Only \<open>_forward_enc_dec_attn\<close> raises.
\<close>

definition forward_self_attn ::
  "('t, 'g, 'dev, 'dty) torch \<Rightarrow> ('t, 'b) StandardTransformerDecoderLayer
     \<Rightarrow> 't \<Rightarrow> 't option \<Rightarrow> 't option \<Rightarrow> 'b option \<Rightarrow> 'g \<Rightarrow> 't \<times> 'b option \<times> 'g" where
  "forward_self_attn T L x padding_mask self_attn_mask state_bag g =
     (let residual = x;
          x1 = (if norm_order L \<noteq> POST then self_attn_layer_norm L x else x);
          (x2, state_bag') =
             mha_forward (self_attn L) x1 x1 x1 self_attn_mask padding_mask state_bag;
          x3 = (case self_attn_norm L of Some n \<Rightarrow> n x2 | None \<Rightarrow> x2);
          (x4, g') =
             (if dropout_p L > 0 then dropout T x3 (dropout_p L) (training L) g else (x3, g));
          x5 = add T x4 residual;
          x6 = (if norm_order L = POST then self_attn_layer_norm L x5 else x5)
      in (x6, state_bag', g'))"

definition enc_out_not_none_msg :: string where
  "enc_out_not_none_msg = ''`enc_out` must be `None` for decoder-only attention.''"

definition enc_out_none_msg :: string where
  "enc_out_none_msg = ''`enc_out` must not be `None` for encoder-decoder attention.''"

text \<open>
  \<open>cast(LayerNorm, self.enc_dec_attn_layer_norm)\<close> does nothing at run time, so a layer
  whose attribute is \<open>None\<close> raises \<open>TypeError\<close> at the call.
\<close>

definition forward_enc_dec_attn ::
  "('t, 'g, 'dev, 'dty) torch \<Rightarrow> ('t, 'b) StandardTransformerDecoderLayer
     \<Rightarrow> 't \<Rightarrow> 't option \<Rightarrow> 't option \<Rightarrow> 'b option \<Rightarrow> 'g
     \<Rightarrow> (error + 't) \<times> 'b option \<times> 'g" where
  "forward_enc_dec_attn T L x enc_out enc_padding_mask state_bag g =
     (case enc_dec_attn L of
        None \<Rightarrow>
          (case enc_out of
             Some _ \<Rightarrow> (Inl (ValueError enc_out_not_none_msg), state_bag, g)
           | None \<Rightarrow> (Inr x, state_bag, g))
      | Some attn \<Rightarrow>
          (case enc_out of
             None \<Rightarrow> (Inl (ValueError enc_out_none_msg), state_bag, g)
           | Some enc \<Rightarrow>
               (let residual = x
                in case (if norm_order L \<noteq> POST
                         then (case enc_dec_attn_layer_norm L of
                                 None \<Rightarrow> Inl TypeError | Some n \<Rightarrow> Inr (n x))
                         else Inr x) of
                     Inl e \<Rightarrow> (Inl e, state_bag, g)
                   | Inr x1 \<Rightarrow>
                       (let (x2, state_bag') =
                              mha_forward attn x1 enc enc None enc_padding_mask state_bag;
                            (x3, g') =
                              (if dropout_p L > 0
                               then dropout T x2 (dropout_p L) (training L) g else (x2, g));
                            x4 = add T x3 residual
                        in if norm_order L = POST
                           then (case enc_dec_attn_layer_norm L of
                                   None \<Rightarrow> (Inl TypeError, state_bag', g')
                                 | Some n \<Rightarrow> (Inr (n x4), state_bag', g'))
                           else (Inr x4, state_bag', g')))))"

definition forward_ffn ::
  "('t, 'g, 'dev, 'dty) torch \<Rightarrow> ('t, 'b) StandardTransformerDecoderLayer
     \<Rightarrow> 't \<Rightarrow> 'g \<Rightarrow> 't \<times> 'g" where
  "forward_ffn T L x g =
     (let residual = x;
          x1 = (if norm_order L \<noteq> POST then ffn_layer_norm L x else x);
          x2 = ffn_forward (ffn L) x1;
          (x3, g') =
             (if dropout_p L > 0 then dropout T x2 (dropout_p L) (training L) g else (x2, g));
          residual' =
             (case residual_scale L of Some s \<Rightarrow> mul T s residual | None \<Rightarrow> residual);
          x4 = add T x3 residual';
          x5 = (if norm_order L = POST then ffn_layer_norm L x4 else x4)
      in (x5, g'))"

text \<open>
  \<open>forward\<close>: the three sub-blocks in sequence.  An exception of the second one ends the
  call, and the bag and the generator stay as the calls before it left them.
\<close>

definition forward ::
  "('t, 'g, 'dev, 'dty) torch \<Rightarrow> ('t, 'b) StandardTransformerDecoderLayer
     \<Rightarrow> 't \<Rightarrow> 't option \<Rightarrow> 't option \<Rightarrow> 't option \<Rightarrow> 't option \<Rightarrow> 'b option \<Rightarrow> 'g
     \<Rightarrow> (error + 't) \<times> 'b option \<times> 'g" where
  "forward T L x padding_mask self_attn_mask enc_out enc_padding_mask state_bag g =
     (let (x1, state_bag1, g1) = forward_self_attn T L x padding_mask self_attn_mask state_bag g
      in case forward_enc_dec_attn T L x1 enc_out enc_padding_mask state_bag1 g1 of
           (Inl e, state_bag2, g2) \<Rightarrow> (Inl e, state_bag2, g2)
         | (Inr x2, state_bag2, g2) \<Rightarrow>
             (let (x3, g3) = forward_ffn T L x2 g2 in (Inr x3, state_bag2, g3)))"

subsection \<open>Vocabulary of the statements\<close>

text \<open>
  The dropout step each sub-block has after its transform:
  \<open>if self.dropout_p > 0.0: x = F.dropout(x, self.dropout_p, self.training)\<close>.
\<close>

definition dropout_step ::
  "('t, 'g, 'dev, 'dty) torch \<Rightarrow> ('t, 'b) StandardTransformerDecoderLayer
     \<Rightarrow> 't \<Rightarrow> 'g \<Rightarrow> 't \<times> 'g" where
  "dropout_step T L x g =
     (if dropout_p L > 0 then dropout T x (dropout_p L) (training L) g else (x, g))"

text \<open>
  What \<open>__init__\<close> leaves true of the optional attributes: the encoder-decoder
  attention and its layer norm are present together.
\<close>

definition well_formed :: "('t, 'b) StandardTransformerDecoderLayer \<Rightarrow> bool" where
  "well_formed L \<longleftrightarrow> (enc_dec_attn L = None) = (enc_dec_attn_layer_norm L = None)"

text \<open>
  The contracts of the collaborators for a shape function \<open>shape\<close>: attention returns
  the shape of its query, the feed-forward network, the norms and dropout keep the shape,
  \<open>x + residual\<close> of two tensors of one shape has that shape, and the residual scale
  broadcasts over tensors of the shape of the input \<open>x\<close>.
\<close>

definition shape_preserving ::
  "('t \<Rightarrow> nat list) \<Rightarrow> ('t, 'g, 'dev, 'dty) torch
     \<Rightarrow> ('t, 'b) StandardTransformerDecoderLayer \<Rightarrow> 't \<Rightarrow> bool" where
  "shape_preserving shape T L x \<longleftrightarrow>
     (\<forall>q k v am pm bag. shape (fst (mha_forward (self_attn L) q k v am pm bag)) = shape q)
   \<and> (\<forall>m q k v am pm bag.
         enc_dec_attn L = Some m \<longrightarrow> shape (fst (mha_forward m q k v am pm bag)) = shape q)
   \<and> (\<forall>y. shape (ffn_forward (ffn L) y) = shape y)
   \<and> (\<forall>y. shape (self_attn_layer_norm L y) = shape y)
   \<and> (\<forall>n y. self_attn_norm L = Some n \<longrightarrow> shape (n y) = shape y)
   \<and> (\<forall>n y. enc_dec_attn_layer_norm L = Some n \<longrightarrow> shape (n y) = shape y)
   \<and> (\<forall>y. shape (ffn_layer_norm L y) = shape y)
   \<and> (\<forall>y p tr g. shape (fst (dropout T y p tr g)) = shape y)
   \<and> (\<forall>a b. shape a = shape b \<longrightarrow> shape (add T a b) = shape a)
   \<and> (\<forall>s r. residual_scale L = Some s \<longrightarrow> shape r = shape x \<longrightarrow> shape (mul T s r) = shape r)"

subsection \<open>A small instance to run the layer on\<close>

text \<open>
  Tensors are vectors of integers, the state bag is a step counter and the random
  generator a counter of draws.  A layer norm squares each entry; attention adds the values to the query and advances the
  bag; dropout in training mode zeroes its input and draws once.
\<close>

definition demo_torch :: "(int list, nat, unit, unit) torch" where
  "demo_torch =
     \<lparr>LayerNorm = (\<lambda>d eps device dtype x. map (\<lambda>v. v * v) x),
      add = (\<lambda>a b. map2 (+) a b),
      mul = (\<lambda>a b. map2 (*) a b),
      dropout = (\<lambda>x p tr g. (if tr then map (\<lambda>v. 0) x else x, Suc g)),
      empty = (\<lambda>shape device dtype. replicate (nat (hd shape)) 7),
      nn_init_ones = (\<lambda>t. map (\<lambda>v. 1) t)\<rparr>"

definition demo_attn :: "int \<Rightarrow> (int list, nat) MultiheadAttention" where
  "demo_attn d =
     \<lparr>mha_model_dim = d,
      mha_forward =
        (\<lambda>q k v attn_mask padding_mask bag.
           (map (\<lambda>a. a + sum_list v) q, map_option Suc bag))\<rparr>"

definition demo_ffn :: "int \<Rightarrow> int list FeedForwardNetwork" where
  "demo_ffn d = \<lparr>ffn_model_dim = d, ffn_forward = map (\<lambda>v. 2 * v)\<rparr>"

definition demo_layer ::
  "(int list, nat) MultiheadAttention option \<Rightarrow> bool \<Rightarrow> real \<Rightarrow> TransformerNormOrder
     \<Rightarrow> error + (int list, nat) StandardTransformerDecoderLayer" where
  "demo_layer eda scale_residual p order =
     init demo_torch (demo_attn 2) eda (demo_ffn 2) scale_residual p order (1 / 100000) None None"

section \<open>The NLLB checkpoint loader (\<open>models/nllb/loader.py\<close>)\<close>

subsection \<open>Python dictionaries and the regular expressions of the key map\<close>

text \<open>
  A Python \<open>dict\<close> keeps its items in insertion order; assigning to a key that is present
  replaces the value where the key stands.  A dict literal assigns its items from left
  to right, so a key written twice keeps its first position and its last value.
\<close>

fun dict_setitem :: "'k \<Rightarrow> 'v \<Rightarrow> ('k \<times> 'v) list \<Rightarrow> ('k \<times> 'v) list" where
  "dict_setitem k v [] = [(k, v)]"
| "dict_setitem k v ((k', v') # d) =
     (if k' = k then (k, v) # d else (k', v') # dict_setitem k v d)"

definition dict_literal :: "('k \<times> 'v) list \<Rightarrow> ('k \<times> 'v) list" where
  "dict_literal items = fold (\<lambda>kv d. dict_setitem (fst kv) (snd kv) d) items []"

text \<open>The backslash of the raw strings.\<close>

definition bsl :: string where
  "bsl = [CHR 0x5C]"

text \<open>
  The fragment of Python's \<open>re\<close> the key map is written in: a pattern anchored with
  \<open>^\<close>, made of letters, digits and underscores standing for themselves, escaped
  punctuation (\<open>\.\<close>) and the capturing group \<open>([0-9]+)\<close>; a replacement template made
  of plain characters and the back-reference \<open>\1\<close>.  A pattern or template outside the
  fragment compiles to \<open>None\<close>.
\<close>

datatype rx = Lit char | Digits

datatype repl = RLit char | Group nat

definition is_digit :: "char \<Rightarrow> bool" where
  "is_digit c \<longleftrightarrow> c \<in> set ''0123456789''"

definition is_word_char :: "char \<Rightarrow> bool" where
  "is_word_char c \<longleftrightarrow>
     c \<in> set ''abcdefghijklmnopqrstuvwxyzABCDEFGHIJKLMNOPQRSTUVWXYZ0123456789_''"

fun parse_pattern :: "string \<Rightarrow> rx list option" where
  "parse_pattern [] = Some []"
| "parse_pattern (c # cs) =
     (if [c] = bsl then
        (case cs of
           [] \<Rightarrow> None
         | d # ds \<Rightarrow>
             if is_word_char d then None else map_option ((#) (Lit d)) (parse_pattern ds))
      else if take 8 (c # cs) = ''([0-9]+)'' then
        map_option ((#) Digits) (parse_pattern (drop 7 cs))
      else if is_word_char c then map_option ((#) (Lit c)) (parse_pattern cs)
      else None)"

definition compile_pattern :: "string \<Rightarrow> rx list option" where
  "compile_pattern p = (case p of [] \<Rightarrow> None | c # cs \<Rightarrow> if c = CHR ''^'' then parse_pattern cs else None)"

fun parse_repl :: "string \<Rightarrow> repl list option" where
  "parse_repl [] = Some []"
| "parse_repl (c # cs) =
     (if [c] = bsl then
        (case cs of
           [] \<Rightarrow> None
         | d # ds \<Rightarrow>
             if d = CHR ''1'' \<and> (case ds of [] \<Rightarrow> True | e # _ \<Rightarrow> \<not> is_digit e)
             then map_option ((#) (Group 1)) (parse_repl ds) else None)
      else map_option ((#) (RLit c)) (parse_repl cs))"

text \<open>
  All the ways a pattern matches a prefix of the input, the preferred one first: the
  groups captured and the input left over.  \<open>([0-9]+)\<close> is greedy, so the longest run of
  digits is tried first.
\<close>

fun rx_match :: "rx list \<Rightarrow> string \<Rightarrow> (string list \<times> string) list" where
  "rx_match [] s = [([], s)]"
| "rx_match (Lit c # p) s =
     (case s of [] \<Rightarrow> [] | d # s' \<Rightarrow> if d = c then rx_match p s' else [])"
| "rx_match (Digits # p) s =
     concat (map (\<lambda>k. map (\<lambda>m. (take k s # fst m, snd m)) (rx_match p (drop k s)))
                 (rev [1 ..< Suc (length (takeWhile is_digit s))]))"

fun expand :: "repl list \<Rightarrow> string list \<Rightarrow> string option" where
  "expand [] gs = Some []"
| "expand (RLit c # r) gs = map_option ((#) c) (expand r gs)"
| "expand (Group i # r) gs =
     (if 0 < i \<and> i \<le> length gs then map_option ((@) (gs ! (i - 1))) (expand r gs) else None)"

text \<open>
  \<open>re.sub(pattern, repl, s)\<close> for an anchored pattern: the only match can start at
  position 0; without a match the string is returned as it is.
\<close>

definition re_sub :: "string \<Rightarrow> string \<Rightarrow> string \<Rightarrow> string option" where
  "re_sub pattern template s =
     (case compile_pattern pattern of
        None \<Rightarrow> None
      | Some p \<Rightarrow>
          (case parse_repl template of
             None \<Rightarrow> None
           | Some r \<Rightarrow>
               (case rx_match p s of
                  [] \<Rightarrow> Some s
                | m # _ \<Rightarrow> map_option (\<lambda>t. t @ snd m) (expand r (fst m)))))"

subsection \<open>\<open>NllbLoader\<close>\<close>

text \<open>
  The items of the dict literal in \<open>_fairseq_key_map\<close>, as written and in the order
  written: fifteen lines, the third and the fourth with the same key.
\<close>

definition fairseq_key_map_items :: "(string \<times> string) list" where
  "fairseq_key_map_items =
     [
      (''^decoder'' @ bsl @ ''.layers'' @ bsl @ ''.([0-9]+)'' @ bsl @ ''.self_attn'' @ bsl @ ''.out_proj'' @ bsl @ ''.'',
       ''decoder.layers.'' @ bsl @ ''1.self_attn.output_proj.''),
      (''^encoder'' @ bsl @ ''.layers'' @ bsl @ ''.([0-9]+)'' @ bsl @ ''.self_attn'' @ bsl @ ''.out_proj'' @ bsl @ ''.'',
       ''encoder.layers.'' @ bsl @ ''1.self_attn.output_proj.''),
      (''^decoder'' @ bsl @ ''.layers'' @ bsl @ ''.([0-9]+)'' @ bsl @ ''.encoder_attn'' @ bsl @ ''.out_proj'' @ bsl @ ''.'',
       ''decoder.layers.'' @ bsl @ ''1.encoder_decoder_attn.output_proj.''),
      (''^decoder'' @ bsl @ ''.layers'' @ bsl @ ''.([0-9]+)'' @ bsl @ ''.encoder_attn'' @ bsl @ ''.out_proj'' @ bsl @ ''.'',
       ''decoder.layers.'' @ bsl @ ''1.encoder_decoder_attn.output_proj.''),
      (''^decoder'' @ bsl @ ''.layers'' @ bsl @ ''.([0-9]+)'' @ bsl @ ''.encoder_attn'' @ bsl @ ''.'',
       ''decoder.layers.'' @ bsl @ ''1.encoder_decoder_attn.''),
      (''^decoder'' @ bsl @ ''.layers'' @ bsl @ ''.([0-9]+)'' @ bsl @ ''.encoder_attn_layer_norm'' @ bsl @ ''.'',
       ''decoder.layers.'' @ bsl @ ''1.encoder_decoder_attn_layer_norm.''),
      (''^encoder'' @ bsl @ ''.layers'' @ bsl @ ''.([0-9]+)'' @ bsl @ ''.fc1'' @ bsl @ ''.'',
       ''encoder.layers.'' @ bsl @ ''1.ffn.inner_proj.''),
      (''^decoder'' @ bsl @ ''.layers'' @ bsl @ ''.([0-9]+)'' @ bsl @ ''.fc1'' @ bsl @ ''.'',
       ''decoder.layers.'' @ bsl @ ''1.ffn.inner_proj.''),
      (''^encoder'' @ bsl @ ''.layers'' @ bsl @ ''.([0-9]+)'' @ bsl @ ''.fc2'' @ bsl @ ''.'',
       ''encoder.layers.'' @ bsl @ ''1.ffn.output_proj.''),
      (''^decoder'' @ bsl @ ''.layers'' @ bsl @ ''.([0-9]+)'' @ bsl @ ''.fc2'' @ bsl @ ''.'',
       ''decoder.layers.'' @ bsl @ ''1.ffn.output_proj.''),
      (''^encoder'' @ bsl @ ''.layers'' @ bsl @ ''.([0-9]+)'' @ bsl @ ''.final_layer_norm'' @ bsl @ ''.'',
       ''encoder.layers.'' @ bsl @ ''1.ffn_layer_norm.''),
      (''^decoder'' @ bsl @ ''.layers'' @ bsl @ ''.([0-9]+)'' @ bsl @ ''.final_layer_norm'' @ bsl @ ''.'',
       ''decoder.layers.'' @ bsl @ ''1.ffn_layer_norm.''),
      (''^encoder'' @ bsl @ ''.embed_tokens'' @ bsl @ ''.'',
       ''encoder_frontend.embed.''),
      (''^decoder'' @ bsl @ ''.embed_tokens'' @ bsl @ ''.'',
       ''decoder_frontend.embed.''),
      (''^decoder'' @ bsl @ ''.output_projection'' @ bsl @ ''.'',
       ''final_proj.'')
     ]"

definition fairseq_key_map :: "(string \<times> string) list" where
  "fairseq_key_map = dict_literal fairseq_key_map_items"

text \<open>Modelled from the spec: \<open>upgrade_fairseq_checkpoint\<close> (\<open>models/utils/checkpoint.py\<close>)
  is not among the sources.  The spec describes it as an ordered list of (pattern,
  replacement) pairs applied in sequence, in declaration order, to the keys of a mapping
  from string keys to tensors.  \<open>rename_key\<close> applies the pairs to one key.
\<close>

fun rename_key :: "(string \<times> string) list \<Rightarrow> string \<Rightarrow> string option" where
  "rename_key [] k = Some k"
| "rename_key (kv # key_map) k =
     (case re_sub (fst kv) (snd kv) k of
        None \<Rightarrow> None
      | Some k' \<Rightarrow> rename_key key_map k')"

text \<open>
  \<open>embeds[[0, 1, 2, 3]] = embeds[[1, 3, 0, 2]]\<close> on a tensor seen as the list of its rows.
  Indexing with a list copies the rows read, so the assignment reads the old rows; a row
  index out of range raises \<open>IndexError\<close>.
\<close>

definition index_select :: "nat list \<Rightarrow> 'r list \<Rightarrow> error + 'r list" where
  "index_select idx xs =
     (if list_all (\<lambda>i. i < length xs) idx then Inr (map ((!) xs) idx) else Inl IndexError)"

definition index_put :: "nat list \<Rightarrow> 'r list \<Rightarrow> 'r list \<Rightarrow> error + 'r list" where
  "index_put idx rows xs =
     (if list_all (\<lambda>i. i < length xs) idx
      then Inr (fold (\<lambda>ir ys. ys[fst ir := snd ir]) (zip idx rows) xs)
      else Inl IndexError)"

definition permute_control_rows :: "'r list \<Rightarrow> error + 'r list" where
  "permute_control_rows embeds =
     (case index_select [1, 3, 0, 2] embeds of
        Inl e \<Rightarrow> Inl e
      | Inr rows \<Rightarrow> index_put [0, 1, 2, 3] rows embeds)"

text \<open>
  \<open>_upgrade_checkpoint\<close>, with \<open>upgrade_fairseq_checkpoint\<close> as a parameter.  A checkpoint
  maps \<open>"model"\<close> to the state dict.  The three keys are bound to one tensor object, so
  the rows permuted in place show under all three.
\<close>

definition upgrade_checkpoint ::
  "((string \<rightharpoonup> (string \<rightharpoonup> 'r list)) \<Rightarrow> (string \<times> string) list \<Rightarrow> (string \<rightharpoonup> (string \<rightharpoonup> 'r list)))
     \<Rightarrow> (string \<rightharpoonup> (string \<rightharpoonup> 'r list)) \<Rightarrow> error + (string \<rightharpoonup> (string \<rightharpoonup> 'r list))" where
  "upgrade_checkpoint upgrade_fairseq_checkpoint checkpoint =
     (let key_map = fairseq_key_map;
          checkpoint' = upgrade_fairseq_checkpoint checkpoint key_map
      in case checkpoint' ''model'' of
           None \<Rightarrow> Inl (KeyError ''model'')
         | Some state_dict \<Rightarrow>
             (case state_dict ''final_proj.weight'' of
                None \<Rightarrow> Inl (KeyError ''final_proj.weight'')
              | Some embeds \<Rightarrow>
                  (case permute_control_rows embeds of
                     Inl e \<Rightarrow> Inl e
                   | Inr embeds' \<Rightarrow>
                       Inr (checkpoint'(''model'' \<mapsto>
                              state_dict(''final_proj.weight'' \<mapsto> embeds',
                                         ''encoder_frontend.embed.weight'' \<mapsto> embeds',
                                         ''decoder_frontend.embed.weight'' \<mapsto> embeds'))))))"

text \<open>The right-hand sides a table of items registers for a pattern, in order.\<close>

definition registrations :: "string \<Rightarrow> (string \<times> string) list \<Rightarrow> string list" where
  "registrations pattern items = map snd (filter (\<lambda>kv. fst kv = pattern) items)"

definition encoder_attn_out_proj_pattern :: string where
  "encoder_attn_out_proj_pattern =
     ''^decoder'' @ bsl @ ''.layers'' @ bsl @ ''.([0-9]+)'' @ bsl @ ''.encoder_attn'' @ bsl
       @ ''.out_proj'' @ bsl @ ''.''"

definition encoder_attn_out_proj_target :: string where
  "encoder_attn_out_proj_target =
     ''decoder.layers.'' @ bsl @ ''1.encoder_decoder_attn.output_proj.''"

section \<open>Properties of the decoder layer\<close>

subsection \<open>The sub-blocks, written out\<close>

lemma forward_self_attn_eq:
  "forward_self_attn T L x pm sam bag g =
     (let q = (if norm_order L \<noteq> POST then self_attn_layer_norm L x else x);
          (a, bag') = mha_forward (self_attn L) q q q sam pm bag;
          (d, g') = dropout_step T L (case self_attn_norm L of Some n \<Rightarrow> n a | None \<Rightarrow> a) g;
          y = add T d x
      in (if norm_order L = POST then self_attn_layer_norm L y else y, bag', g'))"
  by (simp add: forward_self_attn_def dropout_step_def Let_def split: prod.splits)

lemma forward_enc_dec_attn_eq:
  "enc_dec_attn L = Some m \<Longrightarrow> enc_dec_attn_layer_norm L = Some n \<Longrightarrow>
   forward_enc_dec_attn T L x (Some e) epm bag g =
     (let q = (if norm_order L \<noteq> POST then n x else x);
          (a, bag') = mha_forward m q e e None epm bag;
          (d, g') = dropout_step T L a g;
          y = add T d x
      in (Inr (if norm_order L = POST then n y else y), bag', g'))"
  by (simp add: forward_enc_dec_attn_def dropout_step_def Let_def split: prod.splits)

lemma forward_ffn_eq:
  "forward_ffn T L x g =
     (let q = (if norm_order L \<noteq> POST then ffn_layer_norm L x else x);
          (d, g') = dropout_step T L (ffn_forward (ffn L) q) g;
          y = add T d (case residual_scale L of Some s \<Rightarrow> mul T s x | None \<Rightarrow> x)
      in (if norm_order L = POST then ffn_layer_norm L y else y, g'))"
  by (simp add: forward_ffn_def dropout_step_def Let_def split: prod.splits)

lemma init_Inr_fields:
  assumes "init T sa eda ff sr p no eps dev dty = Inr L"
  shows "model_dim L = mha_model_dim sa" "self_attn L = sa" "enc_dec_attn L = eda" "ffn L = ff"
    "dropout_p L = p" "norm_order L = no" "training L = True"
    "self_attn_layer_norm L = LayerNorm T (mha_model_dim sa) eps dev dty"
    "ffn_layer_norm L = LayerNorm T (mha_model_dim sa) eps dev dty"
    "self_attn_norm L = (if no = PRE_WITH_NORMFORMER then Some (LayerNorm T (mha_model_dim sa) eps dev dty) else None)"
    "enc_dec_attn_layer_norm L = (case eda of None \<Rightarrow> None | Some a \<Rightarrow> Some (LayerNorm T (mha_model_dim sa) eps dev dty))"
    "residual_scale L = (if sr then Some (nn_init_ones T (empty T [mha_model_dim sa] dev dty)) else None)"
    "ffn_model_dim ff = mha_model_dim sa" "\<forall>a. eda = Some a \<longrightarrow> mha_model_dim a = mha_model_dim sa"
  using assms
  by (auto simp: init_def reset_parameters_def Let_def split: option.splits if_splits)

lemma init_well_formed:
  "init T sa eda ff sr p no eps dev dty = Inr L \<Longrightarrow> well_formed L"
  using init_Inr_fields(3,11) [of T sa eda ff sr p no eps dev dty L]
  by (auto simp: well_formed_def split: option.splits)

text \<open>
  Claim C1.  In each of the three sub-blocks the layer norm of the block sits where the
  norm order puts it.  Under \<open>POST\<close> the transform (attention or feed-forward network)
  receives the input \<open>x\<close> itself and the block's layer norm is applied to the residual
  sum; under \<open>PRE\<close> and \<open>PRE_WITH_NORMFORMER\<close> the transform receives the layer norm of
  \<open>x\<close> and the residual sum is returned as it is.
\<close>

theorem norm_order_placement:
  "(norm_order L = POST \<longrightarrow>
      forward_self_attn T L x pm sam bag g =
        (let (a, bag') = mha_forward (self_attn L) x x x sam pm bag;
             (d, g') = dropout_step T L (case self_attn_norm L of Some n \<Rightarrow> n a | None \<Rightarrow> a) g
         in (self_attn_layer_norm L (add T d x), bag', g')))
 \<and> (norm_order L \<noteq> POST \<longrightarrow>
      forward_self_attn T L x pm sam bag g =
        (let q = self_attn_layer_norm L x;
             (a, bag') = mha_forward (self_attn L) q q q sam pm bag;
             (d, g') = dropout_step T L (case self_attn_norm L of Some n \<Rightarrow> n a | None \<Rightarrow> a) g
         in (add T d x, bag', g')))
 \<and> (norm_order L = POST \<and> enc_dec_attn L = Some m \<and> enc_dec_attn_layer_norm L = Some n \<longrightarrow>
      forward_enc_dec_attn T L x (Some e) epm bag g =
        (let (a, bag') = mha_forward m x e e None epm bag;
             (d, g') = dropout_step T L a g
         in (Inr (n (add T d x)), bag', g')))
 \<and> (norm_order L \<noteq> POST \<and> enc_dec_attn L = Some m \<and> enc_dec_attn_layer_norm L = Some n \<longrightarrow>
      forward_enc_dec_attn T L x (Some e) epm bag g =
        (let (a, bag') = mha_forward m (n x) e e None epm bag;
             (d, g') = dropout_step T L a g
         in (Inr (add T d x), bag', g')))
 \<and> (norm_order L = POST \<longrightarrow>
      forward_ffn T L x g =
        (let (d, g') = dropout_step T L (ffn_forward (ffn L) x) g
         in (ffn_layer_norm L
               (add T d (case residual_scale L of Some s \<Rightarrow> mul T s x | None \<Rightarrow> x)), g')))
 \<and> (norm_order L \<noteq> POST \<longrightarrow>
      forward_ffn T L x g =
        (let (d, g') = dropout_step T L (ffn_forward (ffn L) (ffn_layer_norm L x)) g
         in (add T d (case residual_scale L of Some s \<Rightarrow> mul T s x | None \<Rightarrow> x), g')))"
  by (simp add: forward_self_attn_eq forward_enc_dec_attn_eq forward_ffn_eq Let_def)

theorem norm_order_placement_witness:
  "(\<exists>L m n. demo_layer (Some (demo_attn 2)) True 0 POST = Inr L
      \<and> norm_order L = POST \<and> enc_dec_attn L = Some m \<and> enc_dec_attn_layer_norm L = Some n
      \<and> forward_self_attn demo_torch L [1, 2] None None (Some 0) 0 = ([25, 49], Some 1, 0)
      \<and> forward_enc_dec_attn demo_torch L [1, 2] (Some [5, 6]) None (Some 0) 0
           = (Inr [169, 225], Some 1, 0)
      \<and> forward_ffn demo_torch L [1, 2] 0 = ([9, 36], 0))
 \<and> (\<exists>L m n. demo_layer (Some (demo_attn 2)) True 0 PRE = Inr L
      \<and> norm_order L \<noteq> POST \<and> enc_dec_attn L = Some m \<and> enc_dec_attn_layer_norm L = Some n
      \<and> forward_self_attn demo_torch L [1, 2] None None (Some 0) 0 = ([7, 11], Some 1, 0)
      \<and> forward_enc_dec_attn demo_torch L [1, 2] (Some [5, 6]) None (Some 0) 0
           = (Inr [13, 17], Some 1, 0)
      \<and> forward_ffn demo_torch L [1, 2] 0 = ([3, 10], 0))"
proof -
  obtain P where P: "demo_layer (Some (demo_attn 2)) True 0 POST = Inr P"
    by (simp add: demo_layer_def init_def Let_def demo_attn_def demo_ffn_def)
  obtain Q where Q: "demo_layer (Some (demo_attn 2)) True 0 PRE = Inr Q"
    by (simp add: demo_layer_def init_def Let_def demo_attn_def demo_ffn_def)
  note p = init_Inr_fields(2-12) [OF P [unfolded demo_layer_def]]
  note q = init_Inr_fields(2-12) [OF Q [unfolded demo_layer_def]]
  have a: "forward_self_attn demo_torch P [1, 2] None None (Some 0) 0 = ([25, 49], Some 1, 0)
      \<and> forward_enc_dec_attn demo_torch P [1, 2] (Some [5, 6]) None (Some 0) 0
           = (Inr [169, 225], Some 1, 0)
      \<and> forward_ffn demo_torch P [1, 2] 0 = ([9, 36], 0)"
    using norm_order_placement [where L = P and T = demo_torch and x = "[1, 2]" and pm = None
        and sam = None and bag = "Some 0" and g = 0 and m = "demo_attn 2"
        and n = "LayerNorm demo_torch 2 (1 / 100000) None None" and e = "[5, 6]" and epm = None]
    by (simp add: p dropout_step_def demo_torch_def demo_attn_def demo_ffn_def numeral_2_eq_2)
  have b: "forward_self_attn demo_torch Q [1, 2] None None (Some 0) 0 = ([7, 11], Some 1, 0)
      \<and> forward_enc_dec_attn demo_torch Q [1, 2] (Some [5, 6]) None (Some 0) 0
           = (Inr [13, 17], Some 1, 0)
      \<and> forward_ffn demo_torch Q [1, 2] 0 = ([3, 10], 0)"
    using norm_order_placement [where L = Q and T = demo_torch and x = "[1, 2]" and pm = None
        and sam = None and bag = "Some 0" and g = 0 and m = "demo_attn 2"
        and n = "LayerNorm demo_torch 2 (1 / 100000) None None" and e = "[5, 6]" and epm = None]
    by (simp add: q dropout_step_def demo_torch_def demo_attn_def demo_ffn_def numeral_2_eq_2)
  have pf: "norm_order P = POST" "enc_dec_attn P = Some (demo_attn 2)"
    "enc_dec_attn_layer_norm P = Some (LayerNorm demo_torch 2 (1 / 100000) None None)"
    by (simp_all add: p demo_attn_def)
  have qf: "norm_order Q \<noteq> POST" "enc_dec_attn Q = Some (demo_attn 2)"
    "enc_dec_attn_layer_norm Q = Some (LayerNorm demo_torch 2 (1 / 100000) None None)"
    by (simp_all add: q demo_attn_def)
  show ?thesis using P Q a b pf qf by blast
qed

text \<open>
  Claim C2.  A layer built without encoder-decoder attention raises \<open>ValueError\<close> when
  \<open>forward\<close> is given an \<open>enc_out\<close>; a layer built with it raises \<open>ValueError\<close> when
  \<open>enc_out\<close> is \<open>None\<close>; in the two remaining cases neither \<open>_forward_enc_dec_attn\<close>
  nor \<open>forward\<close> raises.
\<close>

theorem enc_out_mutual_exclusivity:
  assumes "init T sa eda ff sr p no eps dev dty = Inr L"
  shows "(eda = None \<and> enc_out \<noteq> None \<longrightarrow>
            fst (forward T L x pm sam enc_out epm bag g) = Inl (ValueError enc_out_not_none_msg))
       \<and> (eda \<noteq> None \<and> enc_out = None \<longrightarrow>
            fst (forward T L x pm sam enc_out epm bag g) = Inl (ValueError enc_out_none_msg))
       \<and> ((eda = None) = (enc_out = None) \<longrightarrow>
            (\<exists>y. fst (forward_enc_dec_attn T L x enc_out epm bag g) = Inr y)
          \<and> (\<exists>y. fst (forward T L x pm sam enc_out epm bag g) = Inr y))"
proof -
  have eda: "enc_dec_attn L = eda" and wf: "well_formed L"
    using init_Inr_fields(3) [OF assms] init_well_formed [OF assms] by simp_all
  have disp: "(eda = None) = (enc_out = None) \<Longrightarrow>
      \<exists>y. fst (forward_enc_dec_attn T L x' enc_out epm bag' g') = Inr y" for x' bag' g'
    using eda wf
    by (auto simp: forward_enc_dec_attn_def well_formed_def Let_def
             split: option.splits prod.splits)
  show ?thesis
  proof (intro conjI impI)
    assume "eda = None \<and> enc_out \<noteq> None"
    then show "fst (forward T L x pm sam enc_out epm bag g) = Inl (ValueError enc_out_not_none_msg)"
      using eda by (auto simp: forward_def forward_enc_dec_attn_def split: prod.splits)
  next
    assume "eda \<noteq> None \<and> enc_out = None"
    then show "fst (forward T L x pm sam enc_out epm bag g) = Inl (ValueError enc_out_none_msg)"
      using eda by (auto simp: forward_def forward_enc_dec_attn_def split: prod.splits)
  next
    assume "(eda = None) = (enc_out = None)"
    then show "\<exists>y. fst (forward_enc_dec_attn T L x enc_out epm bag g) = Inr y"
      by (rule disp)
  next
    assume h: "(eda = None) = (enc_out = None)"
    obtain x1 b1 g1 where sa: "forward_self_attn T L x pm sam bag g = (x1, b1, g1)"
      by (cases "forward_self_attn T L x pm sam bag g") auto
    from disp [OF h, of x1 b1 g1] obtain y where
      "fst (forward_enc_dec_attn T L x1 enc_out epm b1 g1) = Inr y" by blast
    then show "\<exists>y. fst (forward T L x pm sam enc_out epm bag g) = Inr y"
      by (cases "forward_enc_dec_attn T L x1 enc_out epm b1 g1")
         (auto simp: forward_def sa split: prod.splits)
  qed
qed

theorem enc_out_mutual_exclusivity_witness:
  "(\<exists>L. demo_layer None False 0 POST = Inr L
      \<and> fst (forward demo_torch L [1, 2] None None (Some [5, 6]) None (Some 0) 0)
           = Inl (ValueError enc_out_not_none_msg)
      \<and> (\<exists>y. fst (forward demo_torch L [1, 2] None None None None (Some 0) 0) = Inr y))
 \<and> (\<exists>L. demo_layer (Some (demo_attn 2)) False 0 POST = Inr L
      \<and> fst (forward demo_torch L [1, 2] None None None None (Some 0) 0)
           = Inl (ValueError enc_out_none_msg)
      \<and> (\<exists>y. fst (forward demo_torch L [1, 2] None None (Some [5, 6]) None (Some 0) 0) = Inr y))"
proof -
  obtain P where P: "demo_layer None False 0 POST = Inr P"
    by (simp add: demo_layer_def init_def Let_def demo_attn_def demo_ffn_def)
  obtain Q where Q: "demo_layer (Some (demo_attn 2)) False 0 POST = Inr Q"
    by (simp add: demo_layer_def init_def Let_def demo_attn_def demo_ffn_def)
  have a: "fst (forward demo_torch P [1, 2] None None (Some [5, 6]) None (Some 0) 0)
           = Inl (ValueError enc_out_not_none_msg)"
    using enc_out_mutual_exclusivity [OF P [unfolded demo_layer_def],
        where enc_out = "Some [5, 6]" and x = "[1, 2]" and pm = None and sam = None
          and epm = None and bag = "Some 0" and g = 0]
    by simp
  have b: "\<exists>y. fst (forward demo_torch P [1, 2] None None None None (Some 0) 0) = Inr y"
    using enc_out_mutual_exclusivity [OF P [unfolded demo_layer_def],
        where enc_out = None and x = "[1, 2]" and pm = None and sam = None
          and epm = None and bag = "Some 0" and g = 0]
    by simp
  have c: "fst (forward demo_torch Q [1, 2] None None None None (Some 0) 0)
           = Inl (ValueError enc_out_none_msg)"
    using enc_out_mutual_exclusivity [OF Q [unfolded demo_layer_def],
        where enc_out = None and x = "[1, 2]" and pm = None and sam = None
          and epm = None and bag = "Some 0" and g = 0]
    by simp
  have d: "\<exists>y. fst (forward demo_torch Q [1, 2] None None (Some [5, 6]) None (Some 0) 0) = Inr y"
    using enc_out_mutual_exclusivity [OF Q [unfolded demo_layer_def],
        where enc_out = "Some [5, 6]" and x = "[1, 2]" and pm = None and sam = None
          and epm = None and bag = "Some 0" and g = 0]
    by simp
  show ?thesis using P Q a b c d by blast
qed

text \<open>
  Claim C3.  A layer built with \<open>scale_residual = True\<close> holds a residual scale (all
  ones after \<open>reset_parameters\<close>).  The feed-forward block multiplies its residual by the
  scale (\<open>torch.mul\<close>) before the residual add; the two attention blocks add the
  residual \<open>x\<close> unscaled, and do not read the scale at all.
\<close>

theorem residual_scale_only_ffn:
  "(init T sa eda ff True p no eps dev dty = Inr L \<longrightarrow>
      residual_scale L = Some (nn_init_ones T (empty T [mha_model_dim sa] dev dty)))
 \<and> (residual_scale L = Some s \<longrightarrow>
      forward_ffn T L x g =
        (let q = (if norm_order L \<noteq> POST then ffn_layer_norm L x else x);
             (d, g') = dropout_step T L (ffn_forward (ffn L) q) g;
             y = add T d (mul T s x)
         in (if norm_order L = POST then ffn_layer_norm L y else y, g')))
 \<and> forward_self_attn T L x pm sam bag g =
        (let q = (if norm_order L \<noteq> POST then self_attn_layer_norm L x else x);
             (a, bag') = mha_forward (self_attn L) q q q sam pm bag;
             (d, g') = dropout_step T L (case self_attn_norm L of Some n \<Rightarrow> n a | None \<Rightarrow> a) g;
             y = add T d x
         in (if norm_order L = POST then self_attn_layer_norm L y else y, bag', g'))
 \<and> (enc_dec_attn L = Some m \<and> enc_dec_attn_layer_norm L = Some n \<longrightarrow>
      forward_enc_dec_attn T L x (Some e) epm bag g =
        (let q = (if norm_order L \<noteq> POST then n x else x);
             (a, bag') = mha_forward m q e e None epm bag;
             (d, g') = dropout_step T L a g;
             y = add T d x
         in (Inr (if norm_order L = POST then n y else y), bag', g')))
 \<and> forward_self_attn T (L\<lparr>residual_scale := r\<rparr>) x pm sam bag g
      = forward_self_attn T L x pm sam bag g
 \<and> forward_enc_dec_attn T (L\<lparr>residual_scale := r\<rparr>) x enc_out epm bag g
      = forward_enc_dec_attn T L x enc_out epm bag g"
proof (intro conjI impI)
  assume "init T sa eda ff True p no eps dev dty = Inr L"
  from init_Inr_fields(12) [OF this]
  show "residual_scale L = Some (nn_init_ones T (empty T [mha_model_dim sa] dev dty))" by simp
next
  assume "residual_scale L = Some s"
  then show "forward_ffn T L x g =
        (let q = (if norm_order L \<noteq> POST then ffn_layer_norm L x else x);
             (d, g') = dropout_step T L (ffn_forward (ffn L) q) g;
             y = add T d (mul T s x)
         in (if norm_order L = POST then ffn_layer_norm L y else y, g'))"
    by (simp add: forward_ffn_eq)
next
  show "forward_self_attn T L x pm sam bag g =
        (let q = (if norm_order L \<noteq> POST then self_attn_layer_norm L x else x);
             (a, bag') = mha_forward (self_attn L) q q q sam pm bag;
             (d, g') = dropout_step T L (case self_attn_norm L of Some n \<Rightarrow> n a | None \<Rightarrow> a) g;
             y = add T d x
         in (if norm_order L = POST then self_attn_layer_norm L y else y, bag', g'))"
    by (rule forward_self_attn_eq)
next
  assume "enc_dec_attn L = Some m \<and> enc_dec_attn_layer_norm L = Some n"
  then show "forward_enc_dec_attn T L x (Some e) epm bag g =
        (let q = (if norm_order L \<noteq> POST then n x else x);
             (a, bag') = mha_forward m q e e None epm bag;
             (d, g') = dropout_step T L a g;
             y = add T d x
         in (Inr (if norm_order L = POST then n y else y), bag', g'))"
    by (simp add: forward_enc_dec_attn_eq)
next
  show "forward_self_attn T (L\<lparr>residual_scale := r\<rparr>) x pm sam bag g
      = forward_self_attn T L x pm sam bag g"
    by (simp add: forward_self_attn_def cong: if_cong)
next
  show "forward_enc_dec_attn T (L\<lparr>residual_scale := r\<rparr>) x enc_out epm bag g
      = forward_enc_dec_attn T L x enc_out epm bag g"
    by (simp add: forward_enc_dec_attn_def cong: if_cong option.case_cong sum.case_cong)
qed

theorem residual_scale_only_ffn_witness:
  "\<exists>L. demo_layer (Some (demo_attn 2)) True 0 PRE = Inr L
      \<and> residual_scale L = Some [1, 1]
      \<and> forward_ffn demo_torch (L\<lparr>residual_scale := Some [0, 0]\<rparr>) [1, 2] 0 = ([2, 8], 0)
      \<and> forward_ffn demo_torch L [1, 2] 0 = ([3, 10], 0)
      \<and> forward_self_attn demo_torch (L\<lparr>residual_scale := Some [0, 0]\<rparr>) [1, 2] None None (Some 0) 0
           = forward_self_attn demo_torch L [1, 2] None None (Some 0) 0
      \<and> forward_enc_dec_attn demo_torch L [1, 2] (Some [5, 6]) None (Some 0) 0
           = (Inr [13, 17], Some 1, 0)"
proof -
  obtain Q where Q: "demo_layer (Some (demo_attn 2)) True 0 PRE = Inr Q"
    by (simp add: demo_layer_def init_def Let_def demo_attn_def demo_ffn_def)
  note q = init_Inr_fields(2-11) [OF Q [unfolded demo_layer_def]]
  let ?Z = "Q\<lparr>residual_scale := Some [0, 0]\<rparr>"
  have r: "residual_scale Q = Some [1, 1]"
    using residual_scale_only_ffn [where L = Q and T = demo_torch and sa = "demo_attn 2"
        and eda = "Some (demo_attn 2)" and ff = "demo_ffn 2" and p = 0 and no = PRE
        and eps = "1 / 100000" and dev = None and dty = None] Q
    by (simp add: demo_layer_def demo_torch_def demo_attn_def numeral_2_eq_2)
  have a: "forward_ffn demo_torch Q [1, 2] 0 = ([3, 10], 0)
      \<and> forward_enc_dec_attn demo_torch Q [1, 2] (Some [5, 6]) None (Some 0) 0
           = (Inr [13, 17], Some 1, 0)"
    using residual_scale_only_ffn [where L = Q and T = demo_torch and s = "[1, 1]"
        and x = "[1, 2]" and g = 0 and m = "demo_attn 2"
        and n = "LayerNorm demo_torch 2 (1 / 100000) None None" and e = "[5, 6]" and epm = None
        and bag = "Some 0"] r
    by (simp add: q dropout_step_def demo_torch_def demo_attn_def demo_ffn_def numeral_2_eq_2)
  have b: "forward_ffn demo_torch ?Z [1, 2] 0 = ([2, 8], 0)"
    using residual_scale_only_ffn [where L = ?Z and T = demo_torch and s = "[0, 0]"
        and x = "[1, 2]" and g = 0]
    by (simp add: q dropout_step_def demo_torch_def demo_ffn_def)
  have c: "forward_self_attn demo_torch ?Z [1, 2] None None (Some 0) 0
           = forward_self_attn demo_torch Q [1, 2] None None (Some 0) 0"
    using residual_scale_only_ffn [where L = Q and T = demo_torch and r = "Some [0, 0]"
        and x = "[1, 2]" and pm = None and sam = None and bag = "Some 0" and g = 0]
    by simp
  show ?thesis using Q r a b c by blast
qed

text \<open>
  Claim C4.  \<open>self_attn_norm\<close> exists exactly in layers built with
  \<open>PRE_WITH_NORMFORMER\<close>.  When present it is applied to the output of the
  self-attention, before dropout and the residual add.  In the encoder-decoder attention
  and feed-forward blocks the output of the transform goes straight to dropout, and
  neither block reads \<open>self_attn_norm\<close>.
\<close>

theorem normformer_extra_norm_only_self_attn:
  "(init T sa eda ff sr p no eps dev dty = Inr L \<longrightarrow>
      (self_attn_norm L \<noteq> None) = (no = PRE_WITH_NORMFORMER))
 \<and> (self_attn_norm L = Some n \<longrightarrow>
      forward_self_attn T L x pm sam bag g =
        (let q = (if norm_order L \<noteq> POST then self_attn_layer_norm L x else x);
             (a, bag') = mha_forward (self_attn L) q q q sam pm bag;
             (d, g') = dropout_step T L (n a) g;
             y = add T d x
         in (if norm_order L = POST then self_attn_layer_norm L y else y, bag', g')))
 \<and> (self_attn_norm L = None \<longrightarrow>
      forward_self_attn T L x pm sam bag g =
        (let q = (if norm_order L \<noteq> POST then self_attn_layer_norm L x else x);
             (a, bag') = mha_forward (self_attn L) q q q sam pm bag;
             (d, g') = dropout_step T L a g;
             y = add T d x
         in (if norm_order L = POST then self_attn_layer_norm L y else y, bag', g')))
 \<and> (enc_dec_attn L = Some m \<and> enc_dec_attn_layer_norm L = Some en \<longrightarrow>
      forward_enc_dec_attn T L x (Some e) epm bag g =
        (let q = (if norm_order L \<noteq> POST then en x else x);
             (a, bag') = mha_forward m q e e None epm bag;
             (d, g') = dropout_step T L a g;
             y = add T d x
         in (Inr (if norm_order L = POST then en y else y), bag', g')))
 \<and> forward_ffn T L x g =
        (let q = (if norm_order L \<noteq> POST then ffn_layer_norm L x else x);
             (d, g') = dropout_step T L (ffn_forward (ffn L) q) g;
             y = add T d (case residual_scale L of Some s \<Rightarrow> mul T s x | None \<Rightarrow> x)
         in (if norm_order L = POST then ffn_layer_norm L y else y, g'))
 \<and> forward_enc_dec_attn T (L\<lparr>self_attn_norm := v\<rparr>) x enc_out epm bag g
      = forward_enc_dec_attn T L x enc_out epm bag g
 \<and> forward_ffn T (L\<lparr>self_attn_norm := v\<rparr>) x g = forward_ffn T L x g"
proof (intro conjI impI)
  assume "init T sa eda ff sr p no eps dev dty = Inr L"
  from init_Inr_fields(10) [OF this]
  show "(self_attn_norm L \<noteq> None) = (no = PRE_WITH_NORMFORMER)" by simp
next
  assume "self_attn_norm L = Some n"
  then show "forward_self_attn T L x pm sam bag g =
        (let q = (if norm_order L \<noteq> POST then self_attn_layer_norm L x else x);
             (a, bag') = mha_forward (self_attn L) q q q sam pm bag;
             (d, g') = dropout_step T L (n a) g;
             y = add T d x
         in (if norm_order L = POST then self_attn_layer_norm L y else y, bag', g'))"
    by (simp add: forward_self_attn_eq)
next
  assume "self_attn_norm L = None"
  then show "forward_self_attn T L x pm sam bag g =
        (let q = (if norm_order L \<noteq> POST then self_attn_layer_norm L x else x);
             (a, bag') = mha_forward (self_attn L) q q q sam pm bag;
             (d, g') = dropout_step T L a g;
             y = add T d x
         in (if norm_order L = POST then self_attn_layer_norm L y else y, bag', g'))"
    by (simp add: forward_self_attn_eq)
next
  assume "enc_dec_attn L = Some m \<and> enc_dec_attn_layer_norm L = Some en"
  then show "forward_enc_dec_attn T L x (Some e) epm bag g =
        (let q = (if norm_order L \<noteq> POST then en x else x);
             (a, bag') = mha_forward m q e e None epm bag;
             (d, g') = dropout_step T L a g;
             y = add T d x
         in (Inr (if norm_order L = POST then en y else y), bag', g'))"
    by (simp add: forward_enc_dec_attn_eq)
next
  show "forward_ffn T L x g =
        (let q = (if norm_order L \<noteq> POST then ffn_layer_norm L x else x);
             (d, g') = dropout_step T L (ffn_forward (ffn L) q) g;
             y = add T d (case residual_scale L of Some s \<Rightarrow> mul T s x | None \<Rightarrow> x)
         in (if norm_order L = POST then ffn_layer_norm L y else y, g'))"
    by (rule forward_ffn_eq)
next
  show "forward_enc_dec_attn T (L\<lparr>self_attn_norm := v\<rparr>) x enc_out epm bag g
      = forward_enc_dec_attn T L x enc_out epm bag g"
    by (simp add: forward_enc_dec_attn_def cong: if_cong option.case_cong sum.case_cong)
next
  show "forward_ffn T (L\<lparr>self_attn_norm := v\<rparr>) x g = forward_ffn T L x g"
    by (simp add: forward_ffn_def cong: if_cong)
qed

theorem normformer_extra_norm_only_self_attn_witness:
  "(\<exists>L n. demo_layer (Some (demo_attn 2)) False 0 PRE_WITH_NORMFORMER = Inr L
      \<and> self_attn_norm L = Some n
      \<and> forward_self_attn demo_torch L [1, 2] None None (Some 0) 0 = ([37, 83], Some 1, 0)
      \<and> forward_enc_dec_attn demo_torch L [1, 2] (Some [5, 6]) None (Some 0) 0
           = (Inr [13, 17], Some 1, 0))
 \<and> (\<exists>L. demo_layer (Some (demo_attn 2)) False 0 PRE = Inr L
      \<and> self_attn_norm L = None
      \<and> forward_self_attn demo_torch L [1, 2] None None (Some 0) 0 = ([7, 11], Some 1, 0))"
proof -
  obtain P where P: "demo_layer (Some (demo_attn 2)) False 0 PRE_WITH_NORMFORMER = Inr P"
    by (simp add: demo_layer_def init_def Let_def demo_attn_def demo_ffn_def)
  obtain Q where Q: "demo_layer (Some (demo_attn 2)) False 0 PRE = Inr Q"
    by (simp add: demo_layer_def init_def Let_def demo_attn_def demo_ffn_def)
  note p = init_Inr_fields(2-12) [OF P [unfolded demo_layer_def]]
  note q = init_Inr_fields(2-12) [OF Q [unfolded demo_layer_def]]
  have pn: "self_attn_norm P = Some (LayerNorm demo_torch 2 (1 / 100000) None None)"
    using normformer_extra_norm_only_self_attn [where L = P and T = demo_torch
        and sa = "demo_attn 2" and eda = "Some (demo_attn 2)" and ff = "demo_ffn 2" and sr = False
        and p = 0 and no = PRE_WITH_NORMFORMER and eps = "1 / 100000" and dev = None and dty = None]
    by (simp add: p demo_attn_def)
  have qn: "self_attn_norm Q = None"
    using normformer_extra_norm_only_self_attn [where L = Q and T = demo_torch
        and sa = "demo_attn 2" and eda = "Some (demo_attn 2)" and ff = "demo_ffn 2" and sr = False
        and p = 0 and no = PRE and eps = "1 / 100000" and dev = None and dty = None] Q
    by (simp add: demo_layer_def)
  have a: "forward_self_attn demo_torch P [1, 2] None None (Some 0) 0 = ([37, 83], Some 1, 0)
      \<and> forward_enc_dec_attn demo_torch P [1, 2] (Some [5, 6]) None (Some 0) 0
           = (Inr [13, 17], Some 1, 0)"
    using normformer_extra_norm_only_self_attn [where L = P and T = demo_torch
        and n = "LayerNorm demo_torch 2 (1 / 100000) None None" and x = "[1, 2]" and pm = None
        and sam = None and bag = "Some 0" and g = 0 and m = "demo_attn 2"
        and en = "LayerNorm demo_torch 2 (1 / 100000) None None" and e = "[5, 6]" and epm = None] pn
    by (simp add: p dropout_step_def demo_torch_def demo_attn_def demo_ffn_def numeral_2_eq_2)
  have b: "forward_self_attn demo_torch Q [1, 2] None None (Some 0) 0 = ([7, 11], Some 1, 0)"
    using normformer_extra_norm_only_self_attn [where L = Q and T = demo_torch
        and x = "[1, 2]" and pm = None and sam = None and bag = "Some 0" and g = 0] qn
    by (simp add: q dropout_step_def demo_torch_def demo_attn_def demo_ffn_def numeral_2_eq_2)
  show ?thesis using P Q pn qn a b by blast
qed

lemma forward_error_cases:
  "fst (forward T L x pm sam enc_out epm bag g) = Inl e \<Longrightarrow>
     e = ValueError enc_out_not_none_msg \<or> e = ValueError enc_out_none_msg \<or> e = TypeError"
  by (auto simp: forward_def forward_enc_dec_attn_def Let_def
           split: prod.splits sum.splits option.splits if_splits)

lemma dim_msgs_distinct:
  "enc_dec_dim_msg d m \<noteq> enc_out_not_none_msg" "enc_dec_dim_msg d m \<noteq> enc_out_none_msg"
  "ffn_dim_msg d m \<noteq> enc_out_not_none_msg" "ffn_dim_msg d m \<noteq> enc_out_none_msg"
  by (simp_all add: enc_dec_dim_msg_def ffn_dim_msg_def enc_out_not_none_msg_def enc_out_none_msg_def)

text \<open>
  Claim C5.  \<open>__init__\<close> raises \<open>ValueError\<close>, and builds no layer, when the
  encoder-decoder attention (if given) or the feed-forward network declares a
  \<open>model_dim\<close> other than that of the self-attention; it returns a layer when all
  declared dimensions agree.  A layer it returns has equal dimensions throughout, and
  \<open>forward\<close> never raises either of the two dimension errors.
\<close>

theorem init_dimension_check:
  "((\<exists>a. eda = Some a \<and> mha_model_dim a \<noteq> mha_model_dim sa) \<longrightarrow>
      (\<exists>a. eda = Some a \<and>
         init T sa eda ff sr p no eps dev dty
           = Inl (ValueError (enc_dec_dim_msg (mha_model_dim a) (mha_model_dim sa)))))
 \<and> ((\<forall>a. eda = Some a \<longrightarrow> mha_model_dim a = mha_model_dim sa)
       \<and> ffn_model_dim ff \<noteq> mha_model_dim sa \<longrightarrow>
      init T sa eda ff sr p no eps dev dty
        = Inl (ValueError (ffn_dim_msg (ffn_model_dim ff) (mha_model_dim sa))))
 \<and> ((\<forall>a. eda = Some a \<longrightarrow> mha_model_dim a = mha_model_dim sa)
       \<and> ffn_model_dim ff = mha_model_dim sa \<longrightarrow>
      (\<exists>L. init T sa eda ff sr p no eps dev dty = Inr L))
 \<and> (init T sa eda ff sr p no eps dev dty = Inr L \<longrightarrow>
      model_dim L = mha_model_dim (self_attn L)
    \<and> ffn_model_dim (ffn L) = model_dim L
    \<and> (\<forall>a. enc_dec_attn L = Some a \<longrightarrow> mha_model_dim a = model_dim L))
 \<and> fst (forward T L x pm sam enc_out epm bag g) \<noteq> Inl (ValueError (enc_dec_dim_msg d m))
 \<and> fst (forward T L x pm sam enc_out epm bag g) \<noteq> Inl (ValueError (ffn_dim_msg d m))"
proof (intro conjI impI)
  assume "\<exists>a. eda = Some a \<and> mha_model_dim a \<noteq> mha_model_dim sa"
  then show "\<exists>a. eda = Some a \<and>
         init T sa eda ff sr p no eps dev dty
           = Inl (ValueError (enc_dec_dim_msg (mha_model_dim a) (mha_model_dim sa)))"
    by (auto simp: init_def Let_def)
next
  assume "(\<forall>a. eda = Some a \<longrightarrow> mha_model_dim a = mha_model_dim sa)
       \<and> ffn_model_dim ff \<noteq> mha_model_dim sa"
  then show "init T sa eda ff sr p no eps dev dty
        = Inl (ValueError (ffn_dim_msg (ffn_model_dim ff) (mha_model_dim sa)))"
    by (cases eda) (auto simp: init_def Let_def)
next
  assume "(\<forall>a. eda = Some a \<longrightarrow> mha_model_dim a = mha_model_dim sa)
       \<and> ffn_model_dim ff = mha_model_dim sa"
  then show "\<exists>L. init T sa eda ff sr p no eps dev dty = Inr L"
    by (cases eda) (auto simp: init_def Let_def)
next
  assume a: "init T sa eda ff sr p no eps dev dty = Inr L"
  show "model_dim L = mha_model_dim (self_attn L)"
    using init_Inr_fields(1,2) [OF a] by simp
  show "ffn_model_dim (ffn L) = model_dim L"
    using init_Inr_fields(1,4,13) [OF a] by simp
  show "\<forall>a. enc_dec_attn L = Some a \<longrightarrow> mha_model_dim a = model_dim L"
  proof (intro allI impI)
    fix a' assume "enc_dec_attn L = Some a'"
    then have "eda = Some a'" using init_Inr_fields(3) [OF a] by simp
    then have "mha_model_dim a' = mha_model_dim sa" using init_Inr_fields(14) [OF a] by blast
    then show "mha_model_dim a' = model_dim L" using init_Inr_fields(1) [OF a] by simp
  qed
next
  show "fst (forward T L x pm sam enc_out epm bag g) \<noteq> Inl (ValueError (enc_dec_dim_msg d m))"
    using forward_error_cases [of T L x pm sam enc_out epm bag g "ValueError (enc_dec_dim_msg d m)"]
      dim_msgs_distinct(1,2) [of d m]
    by auto
next
  show "fst (forward T L x pm sam enc_out epm bag g) \<noteq> Inl (ValueError (ffn_dim_msg d m))"
    using forward_error_cases [of T L x pm sam enc_out epm bag g "ValueError (ffn_dim_msg d m)"]
      dim_msgs_distinct(3,4) [of d m]
    by auto
qed

theorem init_dimension_check_witness:
  "demo_layer (Some (demo_attn 3)) False 0 POST = Inl (ValueError (enc_dec_dim_msg 3 2))
 \<and> init demo_torch (demo_attn 2) (Some (demo_attn 2)) (demo_ffn 5) False 0 POST (1 / 100000) None None
      = Inl (ValueError (ffn_dim_msg 5 2))
 \<and> (\<exists>L. demo_layer (Some (demo_attn 2)) False 0 POST = Inr L
      \<and> model_dim L = 2 \<and> ffn_model_dim (ffn L) = 2
      \<and> (\<forall>a. enc_dec_attn L = Some a \<longrightarrow> mha_model_dim a = 2))"
proof -
  have a: "demo_layer (Some (demo_attn 3)) False 0 POST = Inl (ValueError (enc_dec_dim_msg 3 2))"
    using init_dimension_check [where T = demo_torch and sa = "demo_attn 2"
        and eda = "Some (demo_attn 3)" and ff = "demo_ffn 2" and sr = False and p = 0 and no = POST
        and eps = "1 / 100000" and dev = None and dty = None]
    by (simp add: demo_layer_def demo_attn_def)
  have b: "init demo_torch (demo_attn 2) (Some (demo_attn 2)) (demo_ffn 5) False 0 POST
             (1 / 100000) None None = Inl (ValueError (ffn_dim_msg 5 2))"
    using init_dimension_check [where T = demo_torch and sa = "demo_attn 2"
        and eda = "Some (demo_attn 2)" and ff = "demo_ffn 5" and sr = False and p = 0 and no = POST
        and eps = "1 / 100000" and dev = None and dty = None]
    by (simp add: demo_attn_def demo_ffn_def)
  obtain L where L: "demo_layer (Some (demo_attn 2)) False 0 POST = Inr L"
    by (simp add: demo_layer_def init_def Let_def demo_attn_def demo_ffn_def)
  have sa: "self_attn L = demo_attn 2"
    by (rule init_Inr_fields(2) [OF L [unfolded demo_layer_def]])
  have c: "model_dim L = 2 \<and> ffn_model_dim (ffn L) = 2
      \<and> (\<forall>a. enc_dec_attn L = Some a \<longrightarrow> mha_model_dim a = 2)"
    using init_dimension_check [where T = demo_torch and sa = "demo_attn 2"
        and eda = "Some (demo_attn 2)" and ff = "demo_ffn 2" and sr = False and p = 0 and no = POST
        and eps = "1 / 100000" and dev = None and dty = None and L = L]
      L [unfolded demo_layer_def]
    by (simp add: sa demo_attn_def)
  show ?thesis using a b L c by blast
qed

subsection \<open>Shapes, determinism and the failing call\<close>

lemma shape_preservingD:
  assumes "shape_preserving shape T L x0"
  shows "shape (fst (mha_forward (self_attn L) q k v am pm bag)) = shape q"
    and "enc_dec_attn L = Some m \<Longrightarrow> shape (fst (mha_forward m q k v am pm bag)) = shape q"
    and "shape (ffn_forward (ffn L) y) = shape y"
    and "shape (self_attn_layer_norm L y) = shape y"
    and "self_attn_norm L = Some n \<Longrightarrow> shape (n y) = shape y"
    and "enc_dec_attn_layer_norm L = Some n \<Longrightarrow> shape (n y) = shape y"
    and "shape (ffn_layer_norm L y) = shape y"
    and "shape (fst (dropout T y p tr g)) = shape y"
    and "shape a = shape b \<Longrightarrow> shape (add T a b) = shape a"
    and "residual_scale L = Some s \<Longrightarrow> shape r = shape x0 \<Longrightarrow> shape (mul T s r) = shape r"
  using assms unfolding shape_preserving_def by simp_all

lemma forward_self_attn_shape:
  assumes "shape_preserving shape T L x0" "shape x = shape x0"
  shows "shape (fst (forward_self_attn T L x pm sam bag g)) = shape x0"
proof -
  let ?q = "if norm_order L \<noteq> POST then self_attn_layer_norm L x else x"
  obtain a bag' where a: "mha_forward (self_attn L) ?q ?q ?q sam pm bag = (a, bag')"
    by (cases "mha_forward (self_attn L) ?q ?q ?q sam pm bag") auto
  let ?n = "case self_attn_norm L of Some n \<Rightarrow> n a | None \<Rightarrow> a"
  obtain d g' where d: "dropout_step T L ?n g = (d, g')"
    by (cases "dropout_step T L ?n g") auto
  have q: "shape ?q = shape x0" using assms by (simp add: shape_preserving_def)
  have "shape (fst (mha_forward (self_attn L) ?q ?q ?q sam pm bag)) = shape ?q"
    by (rule shape_preservingD(1) [OF assms(1)])
  then have sa: "shape a = shape x0" using a q by simp
  have n: "shape ?n = shape x0"
    using assms(1) sa by (auto simp: shape_preserving_def split: option.splits)
  have "shape (fst (dropout_step T L ?n g)) = shape ?n"
    using assms(1) by (simp add: shape_preserving_def dropout_step_def)
  then have sd: "shape d = shape x0" using d n by simp
  have y: "shape (add T d x) = shape x0"
    using assms sd by (simp add: shape_preserving_def)
  have "shape (self_attn_layer_norm L (add T d x)) = shape x0"
    using assms(1) y by (simp add: shape_preserving_def)
  then show ?thesis
    using a d y by (simp add: forward_self_attn_eq Let_def)
qed

lemma forward_enc_dec_attn_shape:
  assumes "shape_preserving shape T L x0" "shape x = shape x0"
    and "(enc_dec_attn L = None) = (enc_out = None)" "well_formed L"
  shows "\<exists>y. fst (forward_enc_dec_attn T L x enc_out epm bag g) = Inr y \<and> shape y = shape x0"
proof (cases "enc_dec_attn L")
  case None
  then show ?thesis using assms by (simp add: forward_enc_dec_attn_def)
next
  case (Some m)
  then obtain e where e: "enc_out = Some e" using assms(3) by auto
  obtain n where n: "enc_dec_attn_layer_norm L = Some n"
    using Some assms(4) by (auto simp: well_formed_def)
  let ?q = "if norm_order L \<noteq> POST then n x else x"
  obtain a bag' where a: "mha_forward m ?q e e None epm bag = (a, bag')"
    by (cases "mha_forward m ?q e e None epm bag") auto
  obtain d g' where d: "dropout_step T L a g = (d, g')"
    by (cases "dropout_step T L a g") auto
  have q: "shape ?q = shape x0" using assms(1,2) n by (simp add: shape_preserving_def)
  have "shape (fst (mha_forward m ?q e e None epm bag)) = shape ?q"
    by (rule shape_preservingD(2) [OF assms(1) Some])
  then have sa: "shape a = shape x0" using a q by simp
  have "shape (fst (dropout_step T L a g)) = shape a"
    using assms(1) by (simp add: shape_preserving_def dropout_step_def)
  then have sd: "shape d = shape x0" using d sa by simp
  have y: "shape (add T d x) = shape x0"
    using assms(1,2) sd by (simp add: shape_preserving_def)
  have "shape (n (add T d x)) = shape x0"
    using assms(1) n y by (simp add: shape_preserving_def)
  then show ?thesis
    using a d y e by (simp add: forward_enc_dec_attn_eq [OF Some n] Let_def)
qed

lemma forward_ffn_shape:
  assumes "shape_preserving shape T L x0" "shape x = shape x0"
  shows "shape (fst (forward_ffn T L x g)) = shape x0"
proof -
  let ?q = "if norm_order L \<noteq> POST then ffn_layer_norm L x else x"
  obtain d g' where d: "dropout_step T L (ffn_forward (ffn L) ?q) g = (d, g')"
    by (cases "dropout_step T L (ffn_forward (ffn L) ?q) g") auto
  let ?r = "case residual_scale L of Some s \<Rightarrow> mul T s x | None \<Rightarrow> x"
  have q: "shape (ffn_forward (ffn L) ?q) = shape x0"
    using assms by (simp add: shape_preserving_def)
  have "shape (fst (dropout_step T L (ffn_forward (ffn L) ?q) g)) = shape (ffn_forward (ffn L) ?q)"
    using assms(1) by (simp add: shape_preserving_def dropout_step_def)
  then have sd: "shape d = shape x0" using d q by simp
  have r: "shape ?r = shape x0"
    using assms by (auto simp: shape_preserving_def split: option.splits)
  have y: "shape (add T d ?r) = shape x0"
    using assms(1) sd r by (simp add: shape_preserving_def)
  have "shape (ffn_layer_norm L (add T d ?r)) = shape x0"
    using assms(1) y by (simp add: shape_preserving_def)
  then show ?thesis
    using d y by (simp add: forward_ffn_eq Let_def)
qed

text \<open>
  Claim C6.  When the collaborators keep shapes as their interfaces require
  (\<open>shape_preserving\<close>), the layer is well formed and \<open>enc_out\<close> is given exactly when
  the layer has encoder-decoder attention, \<open>forward\<close> returns a tensor, and its shape is
  the shape of \<open>x\<close>: for every norm order, with or without encoder-decoder attention,
  residual scale and dropout.
\<close>

theorem forward_shape_preserved:
  assumes "shape_preserving shape T L x"
    and "well_formed L"
    and "(enc_dec_attn L = None) = (enc_out = None)"
  shows "\<exists>y. fst (forward T L x pm sam enc_out epm bag g) = Inr y \<and> shape y = shape x"
proof -
  obtain x1 b1 g1 where sa: "forward_self_attn T L x pm sam bag g = (x1, b1, g1)"
    by (cases "forward_self_attn T L x pm sam bag g") auto
  have s1: "shape x1 = shape x"
    using forward_self_attn_shape [OF assms(1), of x pm sam bag g] sa by simp
  obtain x2 where x2: "fst (forward_enc_dec_attn T L x1 enc_out epm b1 g1) = Inr x2"
    and s2: "shape x2 = shape x"
    using forward_enc_dec_attn_shape [OF assms(1) s1 assms(3) assms(2)] by blast
  obtain b2 g2 where ed: "forward_enc_dec_attn T L x1 enc_out epm b1 g1 = (Inr x2, b2, g2)"
    using x2 by (cases "forward_enc_dec_attn T L x1 enc_out epm b1 g1") auto
  have "shape (fst (forward_ffn T L x2 g2)) = shape x"
    by (rule forward_ffn_shape [OF assms(1) s2])
  then show ?thesis
    by (cases "forward_ffn T L x2 g2") (simp add: forward_def sa ed)
qed

lemma dropout_step_zero: "dropout_p L \<le> 0 \<Longrightarrow> dropout_step T L x g = (x, g)"
  by (simp add: dropout_step_def)

theorem forward_shape_preserved_witness:
  "\<exists>L. demo_layer (Some (demo_attn 2)) True (1 / 2) PRE_WITH_NORMFORMER = Inr L
      \<and> shape_preserving (\<lambda>t. [length t]) demo_torch L [1, 2]
      \<and> well_formed L
      \<and> (enc_dec_attn L = None) = (Some [5, 6 :: int] = None)
      \<and> (\<exists>y. fst (forward demo_torch L [1, 2] None None (Some [5, 6]) None (Some 0) 0) = Inr y
            \<and> length y = 2)"
proof -
  obtain L where L: "demo_layer (Some (demo_attn 2)) True (1 / 2) PRE_WITH_NORMFORMER = Inr L"
    by (simp add: demo_layer_def init_def Let_def demo_attn_def demo_ffn_def)
  note f = init_Inr_fields(2-12) [OF L [unfolded demo_layer_def]]
  have wf: "well_formed L"
    by (rule init_well_formed [OF L [unfolded demo_layer_def]])
  have sp: "shape_preserving (\<lambda>t. [length t]) demo_torch L [1, 2]"
    unfolding shape_preserving_def
    by (simp add: f demo_torch_def demo_attn_def demo_ffn_def numeral_2_eq_2)
  have eo: "(enc_dec_attn L = None) = (Some [5, 6 :: int] = None)"
    by (simp add: f)
  have "\<exists>y. fst (forward demo_torch L [1, 2] None None (Some [5, 6]) None (Some 0) 0) = Inr y
            \<and> [length y] = [length [1, 2 :: int]]"
    by (rule forward_shape_preserved [OF sp wf eo])
  then show ?thesis using L sp wf eo by auto
qed

lemma forward_self_attn_no_dropout:
  assumes "dropout_p L \<le> 0" "add T' = add T"
  shows "forward_self_attn T' L x pm sam bag g'
           = (case forward_self_attn T L x pm sam bag g of (y, b, g2) \<Rightarrow> (y, b, g'))"
  using assms by (simp add: forward_self_attn_eq dropout_step_def Let_def split: prod.splits)

lemma forward_enc_dec_attn_no_dropout:
  assumes "dropout_p L \<le> 0" "add T' = add T"
  shows "forward_enc_dec_attn T' L x enc_out epm bag g'
           = (case forward_enc_dec_attn T L x enc_out epm bag g of (y, b, g2) \<Rightarrow> (y, b, g'))"
proof (cases "enc_dec_attn L")
  case None
  then show ?thesis by (cases enc_out) (simp_all add: forward_enc_dec_attn_def)
next
  case (Some m)
  show ?thesis
  proof (cases enc_out)
    case None
    then show ?thesis using Some by (simp add: forward_enc_dec_attn_def)
  next
    case e: (Some e)
    show ?thesis
    proof (cases "enc_dec_attn_layer_norm L")
      case None
      then show ?thesis
        using Some e assms
        by (cases "norm_order L = POST")
           (simp_all add: forward_enc_dec_attn_def Let_def split: prod.splits)
    next
      case n: (Some n)
      show ?thesis
        using e assms
        by (simp add: forward_enc_dec_attn_eq [OF Some n] dropout_step_def Let_def
                 split: prod.splits)
    qed
  qed
qed

lemma forward_ffn_no_dropout:
  assumes "dropout_p L \<le> 0" "add T' = add T" "mul T' = mul T"
  shows "forward_ffn T' L x g' = (case forward_ffn T L x g of (y, g2) \<Rightarrow> (y, g'))"
  using assms by (simp add: forward_ffn_eq dropout_step_def Let_def split: option.splits)

lemma forward_no_dropout:
  assumes "dropout_p L \<le> 0" "add T' = add T" "mul T' = mul T"
  shows "forward T' L x pm sam enc_out epm bag g'
           = (case forward T L x pm sam enc_out epm bag g of (r, b, g2) \<Rightarrow> (r, b, g'))"
proof -
  obtain x1 b1 g1 where sa: "forward_self_attn T L x pm sam bag g = (x1, b1, g1)"
    by (cases "forward_self_attn T L x pm sam bag g") auto
  have sa': "forward_self_attn T' L x pm sam bag g' = (x1, b1, g')"
    using forward_self_attn_no_dropout [OF assms(1,2), of x pm sam bag g' g] sa by simp
  obtain r b2 g2 where ed: "forward_enc_dec_attn T L x1 enc_out epm b1 g1 = (r, b2, g2)"
    by (cases "forward_enc_dec_attn T L x1 enc_out epm b1 g1") auto
  have ed': "forward_enc_dec_attn T' L x1 enc_out epm b1 g' = (r, b2, g')"
    using forward_enc_dec_attn_no_dropout [OF assms(1,2), of x1 enc_out epm b1 g' g1] ed by simp
  show ?thesis
  proof (cases r)
    case (Inl e)
    then show ?thesis by (simp add: forward_def sa sa' ed ed')
  next
    case (Inr x2)
    obtain x3 g3 where ff: "forward_ffn T L x2 g2 = (x3, g3)"
      by (cases "forward_ffn T L x2 g2") auto
    have ff': "forward_ffn T' L x2 g' = (x3, g')"
      using forward_ffn_no_dropout [OF assms, of x2 g' g2] ff by simp
    show ?thesis by (simp add: forward_def sa sa' ed ed' Inr ff ff')
  qed
qed

text \<open>
  Claim C7.  With dropout probability 0 the result of \<open>forward\<close> and the state bag it
  leaves do not depend on the state of the random generator, \<open>F.dropout\<close> is never
  called (any other dropout function gives the same call), and the generator is left
  untouched.
\<close>

theorem forward_deterministic_without_dropout:
  assumes "dropout_p L = 0"
  shows "forward T L x pm sam enc_out epm bag g'
           = (case forward T L x pm sam enc_out epm bag g of (r, bag', g2) \<Rightarrow> (r, bag', g'))
       \<and> forward (T\<lparr>dropout := dr\<rparr>) L x pm sam enc_out epm bag g
           = forward T L x pm sam enc_out epm bag g
       \<and> snd (snd (forward T L x pm sam enc_out epm bag g)) = g"
proof -
  have le: "dropout_p L \<le> 0" using assms by simp
  have a: "forward T L x pm sam enc_out epm bag g'
           = (case forward T L x pm sam enc_out epm bag g of (r, bag', g2) \<Rightarrow> (r, bag', g'))"
    by (rule forward_no_dropout [OF le refl refl])
  have c0: "forward T L x pm sam enc_out epm bag g
           = (case forward T L x pm sam enc_out epm bag g of (r, bag', g2) \<Rightarrow> (r, bag', g))"
    by (rule forward_no_dropout [OF le refl refl])
  have c: "snd (snd (forward T L x pm sam enc_out epm bag g)) = g"
    using c0 by (cases "forward T L x pm sam enc_out epm bag g") auto
  have "forward (T\<lparr>dropout := dr\<rparr>) L x pm sam enc_out epm bag g
           = (case forward T L x pm sam enc_out epm bag g of (r, bag', g2) \<Rightarrow> (r, bag', g))"
    by (rule forward_no_dropout [OF le]) simp_all
  then have b: "forward (T\<lparr>dropout := dr\<rparr>) L x pm sam enc_out epm bag g
           = forward T L x pm sam enc_out epm bag g"
    using c0 by simp
  show ?thesis using a b c by blast
qed

theorem forward_deterministic_without_dropout_witness:
  "\<exists>L. demo_layer (Some (demo_attn 2)) True 0 POST = Inr L
      \<and> dropout_p L = 0
      \<and> forward demo_torch L [1, 2] None None (Some [5, 6]) None (Some 0) 7
           = (case forward demo_torch L [1, 2] None None (Some [5, 6]) None (Some 0) 0 of
                (r, bag', g2) \<Rightarrow> (r, bag', 7))
      \<and> snd (snd (forward demo_torch L [1, 2] None None (Some [5, 6]) None (Some 0) 7)) = 7"
proof -
  obtain L where L: "demo_layer (Some (demo_attn 2)) True 0 POST = Inr L"
    by (simp add: demo_layer_def init_def Let_def demo_attn_def demo_ffn_def)
  have p: "dropout_p L = 0"
    by (rule init_Inr_fields(5) [OF L [unfolded demo_layer_def]])
  have a: "forward demo_torch L [1, 2] None None (Some [5, 6]) None (Some 0) 7
           = (case forward demo_torch L [1, 2] None None (Some [5, 6]) None (Some 0) 0 of
                (r, bag', g2) \<Rightarrow> (r, bag', 7))"
    using forward_deterministic_without_dropout [OF p, where T = demo_torch and x = "[1, 2]"
        and pm = None and sam = None and enc_out = "Some [5, 6]" and epm = None
        and bag = "Some 0" and g = 0 and g' = 7]
    by blast
  have b: "snd (snd (forward demo_torch L [1, 2] None None (Some [5, 6]) None (Some 0) 7)) = 7"
    using forward_deterministic_without_dropout [OF p, where T = demo_torch and x = "[1, 2]"
        and pm = None and sam = None and enc_out = "Some [5, 6]" and epm = None
        and bag = "Some 0" and g = 7]
    by blast
  show ?thesis using L p a b by blast
qed

lemma forward_enc_dec_attn_ValueError:
  assumes "fst (forward_enc_dec_attn T L x enc_out epm bag g) = Inl (ValueError msg)"
  shows "(enc_dec_attn L = None) \<noteq> (enc_out = None)
       \<and> msg = (if enc_out = None then enc_out_none_msg else enc_out_not_none_msg)
       \<and> snd (forward_enc_dec_attn T L x enc_out epm bag g) = (bag, g)"
proof (cases "enc_dec_attn L")
  case None
  then show ?thesis using assms by (cases enc_out) (simp_all add: forward_enc_dec_attn_def)
next
  case (Some m)
  show ?thesis
  proof (cases enc_out)
    case None
    then show ?thesis using Some assms by (simp add: forward_enc_dec_attn_def)
  next
    case e: (Some e)
    show ?thesis
    proof (cases "enc_dec_attn_layer_norm L")
      case None
      then show ?thesis
        using Some e assms
        by (cases "norm_order L = POST")
           (simp_all add: forward_enc_dec_attn_def Let_def split: prod.splits)
    next
      case n: (Some n)
      show ?thesis
        using e assms
        by (simp add: forward_enc_dec_attn_eq [OF Some n] Let_def split: prod.splits)
    qed
  qed
qed

text \<open>
  Claim C10.  When \<open>forward\<close> raises the \<open>ValueError\<close> about \<open>enc_out\<close>, the
  self-attention block has already run: the state bag and the generator are those the
  self-attention block left, and the bag is what the self-attention module made of the
  bag it was handed.  So the failing call is not atomic in the state bag.
\<close>

theorem enc_out_error_after_self_attn:
  assumes "fst (forward T L x pm sam enc_out epm bag g) = Inl (ValueError msg)"
  shows "(enc_dec_attn L = None) \<noteq> (enc_out = None)
       \<and> msg = (if enc_out = None then enc_out_none_msg else enc_out_not_none_msg)
       \<and> snd (forward T L x pm sam enc_out epm bag g) = snd (forward_self_attn T L x pm sam bag g)
       \<and> fst (snd (forward T L x pm sam enc_out epm bag g))
           = (let q = (if norm_order L \<noteq> POST then self_attn_layer_norm L x else x)
              in snd (mha_forward (self_attn L) q q q sam pm bag))"
proof -
  obtain x1 b1 g1 where sa: "forward_self_attn T L x pm sam bag g = (x1, b1, g1)"
    by (cases "forward_self_attn T L x pm sam bag g") auto
  obtain r b2 g2 where ed: "forward_enc_dec_attn T L x1 enc_out epm b1 g1 = (r, b2, g2)"
    by (cases "forward_enc_dec_attn T L x1 enc_out epm b1 g1") auto
  have r: "r = Inl (ValueError msg)"
  proof (cases r)
    case (Inl e)
    then show ?thesis using assms by (simp add: forward_def sa ed)
  next
    case (Inr x2)
    then show ?thesis
      using assms by (cases "forward_ffn T L x2 g2") (simp add: forward_def sa ed)
  qed
  have fw: "forward T L x pm sam enc_out epm bag g = (Inl (ValueError msg), b2, g2)"
    by (simp add: forward_def sa ed r)
  have "fst (forward_enc_dec_attn T L x1 enc_out epm b1 g1) = Inl (ValueError msg)"
    by (simp add: ed r)
  from forward_enc_dec_attn_ValueError [OF this]
  have k: "(enc_dec_attn L = None) \<noteq> (enc_out = None)"
    "msg = (if enc_out = None then enc_out_none_msg else enc_out_not_none_msg)"
    "b2 = b1" "g2 = g1"
    by (simp_all add: ed)
  have bagq: "b1 = (let q = (if norm_order L \<noteq> POST then self_attn_layer_norm L x else x)
              in snd (mha_forward (self_attn L) q q q sam pm bag))"
    using sa by (auto simp add: forward_self_attn_eq Let_def split: prod.splits)
  show ?thesis
    using k bagq by (simp add: fw sa)
qed

theorem enc_out_error_after_self_attn_witness:
  "\<exists>L. demo_layer None False 0 POST = Inr L
      \<and> fst (forward demo_torch L [1, 2] None None (Some [5, 6]) None (Some 0) 0)
           = Inl (ValueError enc_out_not_none_msg)
      \<and> (enc_dec_attn L = None) \<noteq> (Some [5, 6 :: int] = None)
      \<and> fst (snd (forward demo_torch L [1, 2] None None (Some [5, 6]) None (Some 0) 0)) = Some 1
      \<and> Some (1 :: nat) \<noteq> Some 0"
proof -
  obtain L where L: "demo_layer None False 0 POST = Inr L"
    by (simp add: demo_layer_def init_def Let_def demo_attn_def demo_ffn_def)
  note f = init_Inr_fields(2-12) [OF L [unfolded demo_layer_def]]
  have h: "fst (forward demo_torch L [1, 2] None None (Some [5, 6]) None (Some 0) 0)
           = Inl (ValueError enc_out_not_none_msg)"
    by (cases "forward_self_attn demo_torch L [1, 2] None None (Some 0) 0")
       (simp add: forward_def forward_enc_dec_attn_def f)
  have a: "(enc_dec_attn L = None) \<noteq> (Some [5, 6 :: int] = None)"
    using enc_out_error_after_self_attn [OF h] by simp
  have b: "fst (snd (forward demo_torch L [1, 2] None None (Some [5, 6]) None (Some 0) 0))
           = Some 1"
    using enc_out_error_after_self_attn [OF h, THEN conjunct2, THEN conjunct2, THEN conjunct2]
    by (simp add: f demo_attn_def Let_def)
  show ?thesis using L h a b by auto
qed

section \<open>Properties of the loader\<close>

subsection \<open>The key map and the control rows\<close>

lemma fairseq_key_map_items_length:
  "length fairseq_key_map_items = 15"
  by (simp add: fairseq_key_map_items_def)

lemma fairseq_key_map_length:
  "length fairseq_key_map = 14"
  by (simp add: fairseq_key_map_def dict_literal_def fairseq_key_map_items_def bsl_def)

lemma fairseq_key_map_items_third:
  "fairseq_key_map_items ! 2 = (encoder_attn_out_proj_pattern, encoder_attn_out_proj_target)"
  by (simp add: fairseq_key_map_items_def encoder_attn_out_proj_pattern_def
      encoder_attn_out_proj_target_def)

lemma fairseq_key_map_items_fourth:
  "fairseq_key_map_items ! 3 = (encoder_attn_out_proj_pattern, encoder_attn_out_proj_target)"
  by (simp add: fairseq_key_map_items_def encoder_attn_out_proj_pattern_def
      encoder_attn_out_proj_target_def)

lemma registrations_items:
  "registrations encoder_attn_out_proj_pattern fairseq_key_map_items
     = [encoder_attn_out_proj_target, encoder_attn_out_proj_target]"
  by (simp add: registrations_def fairseq_key_map_items_def encoder_attn_out_proj_pattern_def
      encoder_attn_out_proj_target_def bsl_def)

lemma registrations_key_map:
  "registrations encoder_attn_out_proj_pattern fairseq_key_map = [encoder_attn_out_proj_target]"
  by (simp add: registrations_def fairseq_key_map_def dict_literal_def fairseq_key_map_items_def
      encoder_attn_out_proj_pattern_def encoder_attn_out_proj_target_def bsl_def)

lemma re_sub_encoder_attn_out_proj:
  "re_sub encoder_attn_out_proj_pattern encoder_attn_out_proj_target
     ''decoder.layers.3.encoder_attn.out_proj.weight''
   = Some ''decoder.layers.3.encoder_decoder_attn.output_proj.weight''"
  by code_simp

lemma permute_control_rows_eq:
  "permute_control_rows ([bos, pad, eos, unk] @ rest) = Inr ([pad, unk, bos, eos] @ rest)"
  by (simp add: permute_control_rows_def index_select_def index_put_def)

lemma permute_control_rows_short:
  "length embeds < 4 \<Longrightarrow> permute_control_rows embeds = Inl IndexError"
  by (simp add: permute_control_rows_def index_select_def)

text \<open>
  \<open>_upgrade_checkpoint\<close> leaves the permuted tensor under \<open>final_proj.weight\<close> and under
  the two embedding keys.
\<close>

lemma upgrade_checkpoint_rows:
  assumes "upgrade_fairseq_checkpoint checkpoint fairseq_key_map ''model'' = Some state_dict"
    and "state_dict ''final_proj.weight'' = Some ([bos, pad, eos, unk] @ rest)"
  shows "\<exists>c sd. upgrade_checkpoint upgrade_fairseq_checkpoint checkpoint = Inr c
           \<and> c ''model'' = Some sd
           \<and> sd ''final_proj.weight'' = Some ([pad, unk, bos, eos] @ rest)
           \<and> sd ''encoder_frontend.embed.weight'' = Some ([pad, unk, bos, eos] @ rest)
           \<and> sd ''decoder_frontend.embed.weight'' = Some ([pad, unk, bos, eos] @ rest)"
  using assms permute_control_rows_eq [of bos pad eos unk rest]
  by (simp add: upgrade_checkpoint_def Let_def)

text \<open>
  Claim C8.  Renaming the key \<open>encoder.layers.3.fc1.weight\<close> with the key map of
  \<open>_fairseq_key_map\<close>, its pairs applied in declaration order, gives
  \<open>encoder.layers.3.ffn.inner_proj.weight\<close>.  The assignment to the control rows turns a
  tensor whose first four rows are BOS, PAD, EOS, UNK into one whose first four rows are
  PAD, UNK, BOS, EOS: the new row 0 is the old row 1, the new row 1 the old row 3, the new
  row 2 the old row 0 and the new row 3 the old row 2.  The rows after the fourth stay.
\<close>

theorem key_rename_and_control_rows:
  "rename_key fairseq_key_map ''encoder.layers.3.fc1.weight''
     = Some ''encoder.layers.3.ffn.inner_proj.weight''
   \<and> permute_control_rows ([bos, pad, eos, unk] @ rest) = Inr ([pad, unk, bos, eos] @ rest)"
proof (rule conjI)
  show "rename_key fairseq_key_map ''encoder.layers.3.fc1.weight''
          = Some ''encoder.layers.3.ffn.inner_proj.weight''"
    by code_simp
  show "permute_control_rows ([bos, pad, eos, unk] @ rest) = Inr ([pad, unk, bos, eos] @ rest)"
    by (rule permute_control_rows_eq)
qed

subsection \<open>The pattern written twice\<close>

text \<open>
  The two lines of the dict literal with the pattern for
  \<open>decoder.layers.N.encoder_attn.out_proj.\<close> carry the same right-hand side, and both
  rename \<open>decoder.layers.3.encoder_attn.out_proj.weight\<close> to the same key.
\<close>

theorem encoder_attn_out_proj_same_right_hand_side:
  "registrations encoder_attn_out_proj_pattern fairseq_key_map_items
     = [encoder_attn_out_proj_target, encoder_attn_out_proj_target]
   \<and> re_sub (fst (fairseq_key_map_items ! 2)) (snd (fairseq_key_map_items ! 2))
        ''decoder.layers.3.encoder_attn.out_proj.weight''
       = Some ''decoder.layers.3.encoder_decoder_attn.output_proj.weight''
   \<and> re_sub (fst (fairseq_key_map_items ! 3)) (snd (fairseq_key_map_items ! 3))
        ''decoder.layers.3.encoder_attn.out_proj.weight''
       = Some ''decoder.layers.3.encoder_decoder_attn.output_proj.weight''"
  using registrations_items re_sub_encoder_attn_out_proj
  by (simp add: fairseq_key_map_items_third fairseq_key_map_items_fourth)

text \<open>
  Claim C9, amended.  The dict literal of \<open>_fairseq_key_map\<close> has fifteen lines; its third
  and fourth lines both register the pattern for \<open>decoder.layers.N.encoder_attn.out_proj.\<close>,
  and with the same right-hand side
  \<open>decoder.layers.\1.encoder_decoder_attn.output_proj.\<close>.  The dictionary built from the
  literal has fourteen keys and holds that pattern once, with that right-hand side.  The
  two lines rename every key alike.
\<close>

theorem encoder_attn_out_proj_registered_twice_alike:
  "length fairseq_key_map_items = 15
   \<and> fairseq_key_map_items ! 2 = (encoder_attn_out_proj_pattern, encoder_attn_out_proj_target)
   \<and> fairseq_key_map_items ! 3 = (encoder_attn_out_proj_pattern, encoder_attn_out_proj_target)
   \<and> length (registrations encoder_attn_out_proj_pattern fairseq_key_map_items) = 2
   \<and> length fairseq_key_map = 14
   \<and> registrations encoder_attn_out_proj_pattern fairseq_key_map = [encoder_attn_out_proj_target]
   \<and> re_sub (fst (fairseq_key_map_items ! 2)) (snd (fairseq_key_map_items ! 2)) k
       = re_sub (fst (fairseq_key_map_items ! 3)) (snd (fairseq_key_map_items ! 3)) k"
  by (simp add: fairseq_key_map_items_length fairseq_key_map_length fairseq_key_map_items_third
      fairseq_key_map_items_fourth registrations_items registrations_key_map)

end
